theory Spec2Isabelle
  imports Complex_Main
begin

section \<open>Library primitives taken as parameters\<close>

text \<open>
  The platform computes money, percentages and clock differences with Python floats
  (IEEE doubles). Their arithmetic is not the arithmetic of the rationals, so the
  operations the code applies are a parameter of every function that uses them: a
  record of operations over an arbitrary carrier \<open>'f\<close>. Every theorem below holds for
  each interpretation of the record, the doubles of CPython among them.

  \<^item> \<open>fadd\<close>, \<open>fsub\<close>, \<open>fmul\<close>, \<open>fneg\<close>: \<^verbatim>\<open>x + y\<close>, \<^verbatim>\<open>x - y\<close>, \<^verbatim>\<open>x * y\<close>, \<^verbatim>\<open>-x\<close>;
  \<^item> \<open>flt\<close>: \<^verbatim>\<open>x < y\<close>; \<open>fis_zero\<close>: \<^verbatim>\<open>x == 0.0\<close>, the falsy floats;
  \<^item> \<open>fround2\<close>: \<^verbatim>\<open>round(x, 2)\<close> on a float;
  \<^item> \<open>fof_int\<close>: the conversion of an int operand, \<open>flit\<close>: the double a decimal
    literal such as \<^verbatim>\<open>0.0299\<close> denotes;
  \<^item> \<open>ftruediv\<close>: \<^verbatim>\<open>a / b\<close> on two ints with \<open>b \<noteq> 0\<close>. Quotients beyond the range
    of a double, where CPython raises OverflowError, are outside the model;
  \<^item> \<open>fint\<close>: \<^verbatim>\<open>int(x)\<close>, which raises OverflowError on an infinity and ValueError on
    a NaN; \<open>fstr\<close>: \<^verbatim>\<open>str(x)\<close>.
\<close>

text \<open>Exceptions of the source are values.\<close>

datatype py_error =
    IndexError
  | KeyError
  | TypeError
  | InvalidId
  | OverflowError
  | ValueError string
  | HTTPException nat string

record 'f float_ops =
  fadd :: "'f \<Rightarrow> 'f \<Rightarrow> 'f"
  fsub :: "'f \<Rightarrow> 'f \<Rightarrow> 'f"
  fmul :: "'f \<Rightarrow> 'f \<Rightarrow> 'f"
  fneg :: "'f \<Rightarrow> 'f"
  flt :: "'f \<Rightarrow> 'f \<Rightarrow> bool"
  fis_zero :: "'f \<Rightarrow> bool"
  fround2 :: "'f \<Rightarrow> 'f"
  fof_int :: "int \<Rightarrow> 'f"
  flit :: "rat \<Rightarrow> 'f"
  ftruediv :: "int \<Rightarrow> int \<Rightarrow> 'f"
  fint :: "'f \<Rightarrow> py_error + int"
  fstr :: "'f \<Rightarrow> string"

text \<open>A Python number is an int or a float; \<^verbatim>\<open>round(n, 2)\<close> returns an int unchanged.\<close>

datatype 'f pynum = PyInt int | PyFloat 'f

fun py_round2 :: "'f float_ops \<Rightarrow> 'f pynum \<Rightarrow> 'f pynum" where
  "py_round2 ops (PyInt n) = PyInt n"
| "py_round2 ops (PyFloat x) = PyFloat (fround2 ops x)"

text \<open>
  One interpretation, used to evaluate the functions at concrete inputs: exact rational
  arithmetic, with rounding to two decimals that sends a tie to the even neighbour.
  Every value is finite, so \<open>fint\<close> never raises: it drops the fraction. \<open>fstr\<close> writes
  the fraction out.
\<close>

definition round_half_even :: "rat \<Rightarrow> int" where
  "round_half_even x =
     (let f = \<lfloor>x\<rfloor>; d = x - of_int f
      in if d < 1 / 2 then f else if 1 / 2 < d then f + 1 else if even f then f else f + 1)"

definition trunc_int :: "rat \<Rightarrow> int" where
  "trunc_int x = (if 0 \<le> x then \<lfloor>x\<rfloor> else \<lceil>x\<rceil>)"

fun digits :: "nat \<Rightarrow> string" where
  "digits n =
     (if n < 10 then [char_of (48 + n)]
      else digits (n div 10) @ [char_of (48 + n mod 10)])"

definition show_rat :: "rat \<Rightarrow> string" where
  "show_rat x =
     (if x < 0 then ''-'' else []) @ digits (nat \<bar>fst (quotient_of x)\<bar>) @ ''/'' @
     digits (nat (snd (quotient_of x)))"

definition exact_ops :: "rat float_ops" where
  "exact_ops =
     \<lparr> fadd = (+), fsub = (-), fmul = (*), fneg = uminus, flt = (<),
       fis_zero = (\<lambda>x. x = 0),
       fround2 = (\<lambda>x. of_int (round_half_even (x * 100)) / 100),
       fof_int = of_int, flit = (\<lambda>q. q),
       ftruediv = (\<lambda>a b. of_int a / of_int b),
       fint = (\<lambda>x. Inr (trunc_int x)), fstr = show_rat \<rparr>"

text \<open>
  A second interpretation, with the range of the doubles. A finite value is an exact
  rational; a result whose magnitude reaches \<open>2^1024 - 2^970\<close>, where a double rounds
  to an infinity, is that infinity; \<^verbatim>\<open>int\<close> of an infinity raises OverflowError and
  \<^verbatim>\<open>int\<close> of a NaN raises ValueError, as in CPython. The sign of an infinity is True
  when it is negative.
\<close>

datatype xfloat = Finite rat | Infinity bool | NaN

definition clip :: "rat \<Rightarrow> xfloat" where
  "clip x =
     (if 2 ^ 1024 - 2 ^ 970 \<le> x then Infinity False
      else if x \<le> - (2 ^ 1024 - 2 ^ 970) then Infinity True
      else Finite x)"

fun xneg :: "xfloat \<Rightarrow> xfloat" where
  "xneg (Finite a) = Finite (- a)"
| "xneg (Infinity s) = Infinity (\<not> s)"
| "xneg NaN = NaN"

fun xadd :: "xfloat \<Rightarrow> xfloat \<Rightarrow> xfloat" where
  "xadd (Finite a) (Finite b) = clip (a + b)"
| "xadd (Infinity s) (Finite b) = Infinity s"
| "xadd (Finite a) (Infinity t) = Infinity t"
| "xadd (Infinity s) (Infinity t) = (if s = t then Infinity s else NaN)"
| "xadd _ _ = NaN"

fun xmul :: "xfloat \<Rightarrow> xfloat \<Rightarrow> xfloat" where
  "xmul (Finite a) (Finite b) = clip (a * b)"
| "xmul (Infinity s) (Finite b) = (if b = 0 then NaN else Infinity (s \<noteq> (b < 0)))"
| "xmul (Finite a) (Infinity t) = (if a = 0 then NaN else Infinity (t \<noteq> (a < 0)))"
| "xmul (Infinity s) (Infinity t) = Infinity (s \<noteq> t)"
| "xmul _ _ = NaN"

fun xlt :: "xfloat \<Rightarrow> xfloat \<Rightarrow> bool" where
  "xlt (Finite a) (Finite b) = (a < b)"
| "xlt (Infinity s) (Finite b) = s"
| "xlt (Finite a) (Infinity t) = (\<not> t)"
| "xlt (Infinity s) (Infinity t) = (s \<and> \<not> t)"
| "xlt _ _ = False"

fun xround2 :: "xfloat \<Rightarrow> xfloat" where
  "xround2 (Finite a) = clip (of_int (round_half_even (a * 100)) / 100)"
| "xround2 x = x"

fun xint :: "xfloat \<Rightarrow> py_error + int" where
  "xint (Finite a) = Inr (trunc_int a)"
| "xint (Infinity s) = Inl OverflowError"
| "xint NaN = Inl (ValueError ''cannot convert float NaN to integer'')"

fun xstr :: "xfloat \<Rightarrow> string" where
  "xstr (Finite a) = show_rat a"
| "xstr (Infinity s) = (if s then ''-inf'' else ''inf'')"
| "xstr NaN = ''nan''"

definition range_ops :: "xfloat float_ops" where
  "range_ops =
     \<lparr> fadd = xadd, fsub = (\<lambda>x y. xadd x (xneg y)), fmul = xmul, fneg = xneg, flt = xlt,
       fis_zero = (\<lambda>x. x = Finite 0),
       fround2 = xround2,
       fof_int = (\<lambda>n. clip (of_int n)), flit = clip,
       ftruediv = (\<lambda>a b. clip (of_int a / of_int b)),
       fint = xint, fstr = xstr \<rparr>"

section \<open>Test scoring: \<^verbatim>\<open>app/services/test_service.py\<close>\<close>

record question =
  question_text :: string
  options :: "string list"
  correct_answer :: int
  marks :: int

record detailed_result =
  question_number :: nat
  dr_question_text :: string
  submitted_answer :: int
  dr_correct_answer :: int
  is_correct :: bool
  marks_obtained :: int
  dr_total_marks :: int

record 'f test_result =
  tr_test_id :: string
  tr_student_id :: string
  score :: int
  total_marks :: int
  percentage :: "'f pynum"
  detailed_results :: "detailed_result list"
  submitted_at :: int

text \<open>
  \<^verbatim>\<open>evaluate_test\<close> returns a dict with the single key \<^verbatim>\<open>error\<close>, or the result dict;
  an exception is the third outcome.
\<close>

datatype 'f eval_out = Raises py_error | Error_dict string | Result_dict "'f test_result"

text \<open>
  The loop \<^verbatim>\<open>for i, question in enumerate(questions)\<close>, with its three accumulators.
  \<^verbatim>\<open>submitted_answers[i]\<close> raises IndexError when \<open>i\<close> is not an index of the list.
\<close>

fun eval_loop ::
  "question list \<Rightarrow> int list \<Rightarrow> nat \<Rightarrow> int \<Rightarrow> int \<Rightarrow> detailed_result list
     \<Rightarrow> py_error + (int \<times> int \<times> detailed_result list)" where
  "eval_loop [] submitted_answers i sc tot results = Inr (sc, tot, results)"
| "eval_loop (q # qs) submitted_answers i sc tot results =
     (let tot' = tot + marks q
      in if i < length submitted_answers
         then
           (let correct = (submitted_answers ! i = correct_answer q);
                sc' = (if correct then sc + marks q else sc)
            in eval_loop qs submitted_answers (Suc i) sc' tot'
                 (results @
                  [\<lparr> question_number = i + 1,
                     dr_question_text = question_text q,
                     submitted_answer = submitted_answers ! i,
                     dr_correct_answer = correct_answer q,
                     is_correct = correct,
                     marks_obtained = (if correct then marks q else 0),
                     dr_total_marks = marks q \<rparr>]))
         else Inl IndexError)"

definition answers_mismatch :: string where
  "answers_mismatch = ''Number of answers doesn't match number of questions''"

definition evaluate_test ::
  "'f float_ops \<Rightarrow> int \<Rightarrow> question list \<Rightarrow> int list \<Rightarrow> string \<Rightarrow> string \<Rightarrow> 'f eval_out" where
  "evaluate_test ops now questions submitted_answers student_id test_id =
     (if length submitted_answers \<noteq> length questions then Error_dict answers_mismatch
      else
        (case eval_loop questions submitted_answers 0 0 0 [] of
           Inl e \<Rightarrow> Raises e
         | Inr (sc, tot, results) \<Rightarrow>
             (let pct = (if tot > 0
                         then PyFloat (fmul ops (ftruediv ops sc tot) (fof_int ops 100))
                         else PyInt 0)
              in Result_dict
                   \<lparr> tr_test_id = test_id,
                     tr_student_id = student_id,
                     score = sc,
                     total_marks = tot,
                     percentage = py_round2 ops pct,
                     detailed_results = results,
                     submitted_at = now \<rparr>)))"

text \<open>
  The percentage as the specification words it: the rounded quotient, and 0 when the
  total is 0.
\<close>

definition spec_percentage :: "'f float_ops \<Rightarrow> int \<Rightarrow> int \<Rightarrow> 'f pynum" where
  "spec_percentage ops sc tot =
     (if tot = 0 then PyInt 0
      else PyFloat (fround2 ops (fmul ops (ftruediv ops sc tot) (fof_int ops 100))))"

text \<open>The marks a question earns for a submitted answer.\<close>

definition earned :: "question \<times> int \<Rightarrow> int" where
  "earned qa = (if snd qa = correct_answer (fst qa) then marks (fst qa) else 0)"

section \<open>Rate limiting: \<^verbatim>\<open>app/middleware/rate_limiting.py\<close>\<close>

text \<open>
  The limiter's state is \<^verbatim>\<open>self.requests\<close>, a \<^verbatim>\<open>defaultdict(list)\<close> from client key to
  the times of the admitted requests: a total function whose default is the empty list.
  \<^verbatim>\<open>self.rate_limits\<close> maps a limit type to (limit, window in seconds); an unknown type
  gets (100, 60). \<^verbatim>\<open>time.time()\<close> is the parameter \<open>now\<close>.
\<close>

definition rate_limits :: "string \<Rightarrow> (nat \<times> int) option" where
  "rate_limits limit_type =
     (if limit_type = ''auth'' then Some (5, 60)
      else if limit_type = ''api'' then Some (100, 60)
      else if limit_type = ''webhook'' then Some (10, 60)
      else if limit_type = ''ai'' then Some (50, 60)
      else None)"

text \<open>\<^verbatim>\<open>self.rate_limits.get(limit_type, (100, 60))\<close>.\<close>

definition limit_of :: "string \<Rightarrow> nat \<times> int" where
  "limit_of limit_type = (case rate_limits limit_type of Some lw \<Rightarrow> lw | None \<Rightarrow> (100, 60))"

text \<open>The test of the list comprehension: \<^verbatim>\<open>now - req_time < window\<close>.\<close>

definition within_window :: "'f float_ops \<Rightarrow> int \<Rightarrow> 'f \<Rightarrow> 'f \<Rightarrow> bool" where
  "within_window ops window now req_time = flt ops (fsub ops now req_time) (fof_int ops window)"

definition is_allowed ::
  "'f float_ops \<Rightarrow> 'f \<Rightarrow> (string \<Rightarrow> 'f list) \<Rightarrow> string \<Rightarrow> string \<Rightarrow> bool \<times> (string \<Rightarrow> 'f list)" where
  "is_allowed ops now requests key limit_type =
     (let (limit, window) = limit_of limit_type;
          requests1 = requests (key := filter (within_window ops window now) (requests key))
      in if length (requests1 key) \<ge> limit then (False, requests1)
         else (True, requests1 (key := requests1 key @ [now])))"

text \<open>Successive calls for one key and limit type, at the given clock readings.\<close>

fun calls ::
  "'f float_ops \<Rightarrow> string \<Rightarrow> string \<Rightarrow> 'f list \<Rightarrow> (string \<Rightarrow> 'f list)
     \<Rightarrow> bool list \<times> (string \<Rightarrow> 'f list)" where
  "calls ops key limit_type [] requests = ([], requests)"
| "calls ops key limit_type (now # later) requests =
     (let (ok, requests1) = is_allowed ops now requests key limit_type;
          (oks, requests2) = calls ops key limit_type later requests1
      in (ok # oks, requests2))"

text \<open>
  The window has not elapsed over a run of clock readings: every reading is within the
  window of every earlier one.
\<close>

fun window_open :: "'f float_ops \<Rightarrow> int \<Rightarrow> 'f list \<Rightarrow> bool" where
  "window_open ops window [] = True"
| "window_open ops window (t # later) =
     ((\<forall>t' \<in> set later. within_window ops window t' t) \<and> window_open ops window later)"

section \<open>Response envelopes: \<^verbatim>\<open>app/utils/helpers.py\<close>, \<^verbatim>\<open>app/utils/enhanced_responses.py\<close>\<close>

text \<open>
  A response is a dict: a list of keys with their values, in insertion order. The values
  are Python values; what a handler passes as \<open>data\<close> is kept opaque.
\<close>

datatype 'd pyval = VNone | VBool bool | VStr string | VData 'd | VDict "(string \<times> 'd) list"

type_synonym 'd pydict = "(string \<times> 'd pyval) list"

text \<open>
  \<^verbatim>\<open>helpers.success_response(data, message)\<close>: the function the route modules import
  under the name \<^verbatim>\<open>success_response\<close>.
\<close>

definition success_response :: "'d pyval \<Rightarrow> string \<Rightarrow> 'd pydict" where
  "success_response data message =
     [(''success'', VBool True), (''message'', VStr message), (''data'', data)]"

text \<open>
  \<^verbatim>\<open>enhanced_responses.success_response(data, message, status_code, meta)\<close>, imported by
  the auth and admin routes as \<^verbatim>\<open>enhanced_success_response\<close>. \<open>timestamp\<close> is the text
  of \<^verbatim>\<open>datetime.utcnow().isoformat()\<close>; \<^verbatim>\<open>status_code\<close> is not used by the body.
  \<^verbatim>\<open>if meta:\<close> holds for a dict that is not empty.
\<close>

definition enhanced_success_response ::
  "string \<Rightarrow> 'd pyval \<Rightarrow> string \<Rightarrow> (string \<times> 'd) list option \<Rightarrow> 'd pydict" where
  "enhanced_success_response timestamp data message meta =
     (let response = [(''success'', VBool True), (''message'', VStr message),
                      (''timestamp'', VStr timestamp)];
          response1 = (if data \<noteq> VNone then response @ [(''data'', data)] else response);
          response2 = (case meta of
                         None \<Rightarrow> response1
                       | Some m \<Rightarrow> if m \<noteq> [] then response1 @ [(''meta'', VDict m)] else response1)
      in response2)"

section \<open>The document store\<close>

text \<open>
  The handlers share one MongoDB database. A collection is the list of its documents in
  insertion order; \<^verbatim>\<open>find_one\<close> returns the first document that matches the filter,
  \<^verbatim>\<open>update_one\<close> changes the first document that matches, \<^verbatim>\<open>update_many\<close> every one.
  The handlers modelled here look a user up by \<^verbatim>\<open>_id\<close>, so the users are a map from ObjectId
  to document. \<^verbatim>\<open>bson.ObjectId(s)\<close> is a parameter of the model: it yields the id a
  string denotes, or \<open>None\<close> where the library raises InvalidId. A datetime is an int (a
  count of microseconds), and one call of a handler reads the clock once.
\<close>

definition find_one :: "('a \<Rightarrow> bool) \<Rightarrow> 'a list \<Rightarrow> 'a option" where
  "find_one P docs = List.find P docs"

fun update_one :: "('a \<Rightarrow> bool) \<Rightarrow> ('a \<Rightarrow> 'a) \<Rightarrow> 'a list \<Rightarrow> 'a list" where
  "update_one P f [] = []"
| "update_one P f (d # docs) = (if P d then f d # docs else d # update_one P f docs)"

definition update_many :: "('a \<Rightarrow> bool) \<Rightarrow> ('a \<Rightarrow> 'a) \<Rightarrow> 'a list \<Rightarrow> 'a list" where
  "update_many P f docs = map (\<lambda>d. if P d then f d else d) docs"

record 'f user =
  user_name :: string
  user_role :: string
  user_verified :: bool
  wallet_balance :: 'f

record 'f payment =
  payment_id :: string
  order_id :: string
  p_user_id :: string
  p_amount :: 'f
  p_fee_amount :: 'f
  p_total_amount :: 'f
  p_currency :: string
  p_purpose :: "string option"
  p_gateway :: string
  p_payment_method :: string
  p_status :: string
  p_created_at :: int
  p_expires_at :: int
  p_verified_at :: "int option"
  p_signature :: "string option"
  p_gateway_response :: "(string \<times> string) list option"
  p_refund_id :: "string option"
  p_refund_amount :: "'f option"
  p_refund_reason :: "string option"
  p_refunded_at :: "int option"

record 'f transaction =
  t_user_id :: string
  t_amount :: 'f
  t_fee_amount :: "'f option"
  t_type :: string
  t_purpose :: string
  t_reference_id :: string
  t_gateway :: "string option"
  t_payment_method :: "string option"
  t_timestamp :: int
  t_original_payment_id :: "string option"
  t_reason :: "string option"

record 'f session =
  session_id :: string
  s_student_id :: string
  s_faculty_id :: string
  s_course_id :: string
  s_scheduled_time :: int
  s_duration_minutes :: int
  s_topic :: string
  s_amount :: 'f
  s_status :: string
  s_payment_status :: string
  s_created_at :: int
  s_updated_at :: int
  s_meeting_link :: "string option"
  s_notes :: "string option"

record notification =
  n_user_id :: string
  n_message :: string
  n_type :: string
  n_read_status :: bool
  n_timestamp :: int

record otp =
  otp_oid :: nat
  otp_email :: string
  otp_code :: string
  otp_purpose :: string
  otp_expires_at :: int
  otp_is_used :: bool
  otp_created_at :: int

record ('f, 'i) database =
  payments :: "'f payment list"
  users :: "'i \<rightharpoonup> 'f user"
  transactions :: "'f transaction list"
  sessions :: "'f session list"
  notifications :: "notification list"
  otps :: "otp list"

text \<open>\<^verbatim>\<open>update_one({"_id": i}, {"$inc": {"wallet_balance": x}})\<close> on the users.\<close>

definition inc_wallet :: "'f float_ops \<Rightarrow> 'i \<Rightarrow> 'f \<Rightarrow> ('i \<rightharpoonup> 'f user) \<Rightarrow> ('i \<rightharpoonup> 'f user)" where
  "inc_wallet ops i x us =
     (case us i of
        None \<Rightarrow> us
      | Some u \<Rightarrow> us (i \<mapsto> u \<lparr> wallet_balance := fadd ops (wallet_balance u) x \<rparr>))"

text \<open>The store with no documents.\<close>

definition empty_db :: "('f, 'i) database" where
  "empty_db =
     \<lparr> payments = [], users = Map.empty, transactions = [], sessions = [],
       notifications = [], otps = [] \<rparr>"

section \<open>Payments: \<^verbatim>\<open>app/services/payment_service.py\<close>\<close>

definition supported_gateways :: "string list" where
  "supported_gateways = [''razorpay'', ''stripe'', ''paypal'']"

definition supported_currencies :: "string list" where
  "supported_currencies = [''INR'', ''USD'', ''EUR'']"

definition supported_payment_methods :: "string list" where
  "supported_payment_methods = [''card'', ''upi'', ''wallet'', ''netbanking'', ''bank_transfer'']"

text \<open>The nested dict \<^verbatim>\<open>fee_rates\<close> of \<^verbatim>\<open>_calculate_fees\<close>, with its decimal literals.\<close>

definition fee_rates :: "(string \<times> (string \<times> rat) list) list" where
  "fee_rates =
     [(''razorpay'',
        [(''card'', 299 / 10000), (''upi'', 0), (''wallet'', 199 / 10000),
         (''netbanking'', 199 / 10000), (''bank_transfer'', 0)]),
      (''stripe'',
        [(''card'', 29 / 1000), (''upi'', 29 / 1000), (''wallet'', 29 / 1000),
         (''netbanking'', 29 / 1000), (''bank_transfer'', 29 / 1000)]),
      (''paypal'',
        [(''card'', 29 / 1000), (''upi'', 29 / 1000), (''wallet'', 29 / 1000),
         (''netbanking'', 29 / 1000), (''bank_transfer'', 29 / 1000)])]"

text \<open>\<^verbatim>\<open>fee_rates.get(gateway, {}).get(payment_method, 0.02)\<close>.\<close>

definition base_rate :: "string \<Rightarrow> string \<Rightarrow> rat" where
  "base_rate gateway payment_method =
     (case map_of (case map_of fee_rates gateway of None \<Rightarrow> [] | Some t \<Rightarrow> t) payment_method of
        None \<Rightarrow> 2 / 100
      | Some r \<Rightarrow> r)"

definition calculate_fees :: "'f float_ops \<Rightarrow> 'f \<Rightarrow> string \<Rightarrow> string \<Rightarrow> 'f" where
  "calculate_fees ops amount gateway payment_method =
     (let fee = fmul ops amount (flit ops (base_rate gateway payment_method));
          fee1 = (if gateway = ''stripe'' then fadd ops fee (flit ops (30 / 100))
                  else if gateway = ''paypal'' then fadd ops fee (flit ops (30 / 100))
                  else fee)
      in fround2 ops fee1)"

text \<open>
  The dict \<^verbatim>\<open>_generate_gateway_response\<close> builds for a gateway, with the keys of the
  source in their order; the last case is the empty dict.
\<close>

datatype gateway_dict =
    Razorpay_dict
      (rz_key_id: string) (rz_order_id: string) (rz_amount: int) (rz_currency: string)
      (rz_name: string) (rz_description: string) (rz_prefill_email: string)
      (rz_prefill_contact: string)
  | Stripe_dict
      (st_client_secret: string) (st_amount: int) (st_currency: string)
      (st_metadata_order_id: string) (st_metadata_purpose: string)
  | Paypal_dict
      (pp_order_id: string) (pp_amount_value: string) (pp_amount_currency_code: string)
      (pp_intent: string)
  | Empty_dict

text \<open>\<^verbatim>\<open>str.lower()\<close> on the letters A to Z, which is what a supported currency has.\<close>

definition lower :: "string \<Rightarrow> string" where
  "lower s =
     map (\<lambda>c. if (65 :: nat) \<le> of_char c \<and> of_char c \<le> (90 :: nat)
              then char_of (of_char c + (32 :: nat)) else c) s"

text \<open>
  \<^verbatim>\<open>_generate_gateway_response\<close>. \<open>key_id\<close> is the configured Razorpay key and
  \<open>uuid3\<close> the hex text of the \<^verbatim>\<open>uuid.uuid4()\<close> draw of the Stripe branch. The amount
  in minor units is \<^verbatim>\<open>int(payment_data["total_amount"] * 100)\<close>, which raises when the
  product is not finite; subscripting a missing \<^verbatim>\<open>purpose\<close> raises KeyError.
\<close>

definition generate_gateway_response ::
  "'f float_ops \<Rightarrow> string \<Rightarrow> string \<Rightarrow> 'f payment \<Rightarrow> string \<Rightarrow> py_error + gateway_dict" where
  "generate_gateway_response ops key_id uuid3 payment_data gateway =
     (if gateway = ''razorpay''
      then
        (case fint ops (fmul ops (p_total_amount payment_data) (fof_int ops 100)) of
           Inl e \<Rightarrow> Inl e
         | Inr minor \<Rightarrow>
             (case p_purpose payment_data of
                None \<Rightarrow> Inl KeyError
              | Some purpose \<Rightarrow>
                  Inr (Razorpay_dict key_id (order_id payment_data) minor
                         (p_currency payment_data) ''StudyFriend''
                         (''Payment for '' @ purpose) ''user@example.com'' ''9999999999'')))
      else if gateway = ''stripe''
      then
        (case fint ops (fmul ops (p_total_amount payment_data) (fof_int ops 100)) of
           Inl e \<Rightarrow> Inl e
         | Inr minor \<Rightarrow>
             (case p_purpose payment_data of
                None \<Rightarrow> Inl KeyError
              | Some purpose \<Rightarrow>
                  Inr (Stripe_dict (''cs_test_'' @ take 24 uuid3) minor
                         (lower (p_currency payment_data)) (order_id payment_data) purpose)))
      else if gateway = ''paypal''
      then Inr (Paypal_dict (''PAYPAL_'' @ order_id payment_data)
                  (fstr ops (p_total_amount payment_data)) (p_currency payment_data)
                  ''CAPTURE'')
      else Inr Empty_dict)"

text \<open>
  The dict \<^verbatim>\<open>initiate_payment\<close> returns. The stored \<^verbatim>\<open>metadata\<close>, an opaque dict
  that no handler reads, is left out of the model.
\<close>

record 'f initiated =
  i_payment_id :: string
  i_order_id :: string
  i_amount :: 'f
  i_fee_amount :: 'f
  i_total_amount :: 'f
  i_currency :: string
  i_gateway :: string
  i_payment_method :: string
  i_status :: string
  i_gateway_data :: gateway_dict
  i_expires_at :: int

text \<open>
  \<open>uuid1\<close> and \<open>uuid2\<close> are the hex texts of the two \<^verbatim>\<open>uuid.uuid4()\<close> draws;
  \<^verbatim>\<open>timedelta(minutes=30)\<close> is 1800000000 microseconds. The payment is stored before
  the gateway response is built, so an exception of \<^verbatim>\<open>_generate_gateway_response\<close>
  leaves it stored.
\<close>

definition initiate_payment ::
  "'f float_ops \<Rightarrow> string \<Rightarrow> int \<Rightarrow> string \<Rightarrow> string \<Rightarrow> string \<Rightarrow> ('f, 'i) database \<Rightarrow>
   string \<Rightarrow> 'f \<Rightarrow> string \<Rightarrow> string \<Rightarrow> string \<Rightarrow> string \<Rightarrow>
   (py_error + 'f initiated) \<times> ('f, 'i) database" where
  "initiate_payment ops key_id now uuid1 uuid2 uuid3 db user_id amount currency purpose gateway
     payment_method =
     (if gateway \<notin> set supported_gateways
      then (Inl (ValueError (''Unsupported gateway: '' @ gateway)), db)
      else if currency \<notin> set supported_currencies
      then (Inl (ValueError (''Unsupported currency: '' @ currency)), db)
      else if payment_method \<notin> set supported_payment_methods
      then (Inl (ValueError (''Unsupported payment method: '' @ payment_method)), db)
      else
        (let pid = ''pay_'' @ take 16 uuid1;
             oid = ''order_'' @ take 16 uuid2;
             fee = calculate_fees ops amount gateway payment_method;
             total_amount = fadd ops amount fee;
             payment_data =
               \<lparr> payment_id = pid, order_id = oid, p_user_id = user_id,
                 p_amount = amount, p_fee_amount = fee, p_total_amount = total_amount,
                 p_currency = currency, p_purpose = Some purpose, p_gateway = gateway,
                 p_payment_method = payment_method, p_status = ''created'',
                 p_created_at = now, p_expires_at = now + 1800000000,
                 p_verified_at = None, p_signature = None, p_gateway_response = None,
                 p_refund_id = None, p_refund_amount = None, p_refund_reason = None,
                 p_refunded_at = None \<rparr>;
             db1 = db \<lparr> payments := payments db @ [payment_data] \<rparr>
         in case generate_gateway_response ops key_id uuid3 payment_data gateway of
              Inl e \<Rightarrow> (Inl e, db1)
            | Inr gateway_response \<Rightarrow>
                (Inr \<lparr> i_payment_id = pid, i_order_id = oid, i_amount = amount,
                       i_fee_amount = fee, i_total_amount = total_amount,
                       i_currency = currency, i_gateway = gateway,
                       i_payment_method = payment_method, i_status = ''created'',
                       i_gateway_data = gateway_response,
                       i_expires_at = p_expires_at payment_data \<rparr>,
                 db1)))"

text \<open>
  The dicts \<^verbatim>\<open>verify_payment\<close> and \<^verbatim>\<open>process_refund\<close> return: \<^verbatim>\<open>success\<close> and
  \<^verbatim>\<open>message\<close> always, the other keys on success only.
\<close>

record 'f outcome =
  o_success :: bool
  o_message :: string
  o_payment_id :: "string option"
  o_status :: "string option"
  o_amount :: "'f option"
  o_fee_amount :: "'f option"
  o_refund_id :: "string option"
  o_gateway :: "string option"

definition failure :: "string \<Rightarrow> 'f outcome" where
  "failure msg =
     \<lparr> o_success = False, o_message = msg, o_payment_id = None, o_status = None,
       o_amount = None, o_fee_amount = None, o_refund_id = None, o_gateway = None \<rparr>"



text \<open>
  \<^verbatim>\<open>process_refund\<close>. \<open>amount\<close> is the optional argument; \<^verbatim>\<open>amount or payment["amount"]\<close>
  takes the payment's amount when the argument is None or a zero. \<open>uuid1\<close> is the hex
  text of the \<^verbatim>\<open>uuid.uuid4()\<close> draw.
\<close>

definition refund_amount_of :: "'f float_ops \<Rightarrow> 'f option \<Rightarrow> 'f payment \<Rightarrow> 'f" where
  "refund_amount_of ops amount payment =
     (case amount of
        None \<Rightarrow> p_amount payment
      | Some a \<Rightarrow> if fis_zero ops a then p_amount payment else a)"

definition process_refund ::
  "'f float_ops \<Rightarrow> (string \<Rightarrow> 'i option) \<Rightarrow> int \<Rightarrow> string \<Rightarrow>
   ('f, 'i) database \<Rightarrow> string \<Rightarrow> 'f option \<Rightarrow> string \<Rightarrow>
   (py_error + 'f outcome) \<times> ('f, 'i) database" where
  "process_refund ops ObjectId now uuid1 db pid amount reason =
     (case find_one (\<lambda>p. payment_id p = pid) (payments db) of
        None \<Rightarrow> (Inr (failure ''Payment not found''), db)
      | Some payment \<Rightarrow>
          if p_status payment \<noteq> ''completed''
          then (Inr (failure ''Only completed payments can be refunded''), db)
          else
            (let refund_amount = refund_amount_of ops amount payment
             in if flt ops (p_amount payment) refund_amount
                then (Inr (failure ''Refund amount cannot exceed payment amount''), db)
                else
                  (let refund_id = ''rfnd_'' @ take 16 uuid1;
                       db1 = db \<lparr> payments :=
                                    update_one (\<lambda>p. payment_id p = pid)
                                      (\<lambda>p. p \<lparr> p_status := ''refunded'',
                                               p_refund_id := Some refund_id,
                                               p_refund_amount := Some refund_amount,
                                               p_refund_reason := Some reason,
                                               p_refunded_at := Some now \<rparr>)
                                      (payments db) \<rparr>
                   in case ObjectId (p_user_id payment) of
                        None \<Rightarrow> (Inl InvalidId, db1)
                      | Some i \<Rightarrow>
                          (Inr \<lparr> o_success = True, o_message = ''Refund processed successfully'',
                                 o_payment_id = None, o_status = None,
                                 o_amount = Some refund_amount, o_fee_amount = None,
                                 o_refund_id = Some refund_id,
                                 o_gateway = Some (p_gateway payment) \<rparr>,
                           db1 \<lparr> users := inc_wallet ops i refund_amount (users db1),
                                 transactions := transactions db1 @
                                   [\<lparr> t_user_id = p_user_id payment, t_amount = refund_amount,
                                      t_fee_amount = None, t_type = ''credit'',
                                      t_purpose = ''refund'', t_reference_id = refund_id,
                                      t_gateway = Some (p_gateway payment),
                                      t_payment_method = None, t_timestamp = now,
                                      t_original_payment_id = Some pid,
                                      t_reason = Some reason \<rparr>] \<rparr>))))"

section \<open>Sessions: \<^verbatim>\<open>book_session\<close> and \<^verbatim>\<open>update_session\<close>\<close>

text \<open>The request bodies \<^verbatim>\<open>SessionCreate\<close> and \<^verbatim>\<open>SessionUpdate\<close>.\<close>

record 'f session_create =
  sc_faculty_id :: string
  sc_course_id :: string
  sc_scheduled_time :: int
  sc_duration_minutes :: int
  sc_topic :: string
  sc_amount :: 'f

record session_update =
  su_status :: "string option"
  su_meeting_link :: "string option"
  su_notes :: "string option"

text \<open>The \<open>data\<close> of the two responses.\<close>

record booked =
  b_session_id :: string
  b_id :: string
  b_status :: string
  b_message :: string

record updated =
  up_session_id :: string
  up_status :: "string option"

text \<open>A string argument is truthy when it is given and not empty.\<close>

definition truthy :: "string option \<Rightarrow> bool" where
  "truthy x = (case x of None \<Rightarrow> False | Some s \<Rightarrow> s \<noteq> [])"

text \<open>
  \<^verbatim>\<open>book_session\<close> in \<^verbatim>\<open>app/routes/student_routes.py\<close>. \<open>user_id\<close> is
  \<^verbatim>\<open>current_user["user_id"]\<close> of the authenticated student, \<open>uuid1\<close> the hex text of
  the \<^verbatim>\<open>uuid.uuid4()\<close> draw and \<open>inserted_id\<close> the text of the id the store gives the
  new session. Subscripting the student document raises TypeError when no such user
  is stored.
\<close>

definition book_session ::
  "'f float_ops \<Rightarrow> (string \<Rightarrow> 'i option) \<Rightarrow> int \<Rightarrow> string \<Rightarrow> string \<Rightarrow>
   ('f, 'i) database \<Rightarrow> 'f session_create \<Rightarrow> string \<Rightarrow>
   (py_error + booked pydict) \<times> ('f, 'i) database" where
  "book_session ops ObjectId now uuid1 inserted_id db session user_id =
     (case ObjectId (sc_faculty_id session) of
        None \<Rightarrow> (Inl InvalidId, db)
      | Some fi \<Rightarrow>
          (case (case users db fi of
                   None \<Rightarrow> None
                 | Some f \<Rightarrow> if user_role f = ''faculty'' \<and> user_verified f then Some f else None) of
             None \<Rightarrow> (Inl (HTTPException 404 ''Faculty not found or not verified''), db)
           | Some faculty \<Rightarrow>
               (case ObjectId user_id of
                  None \<Rightarrow> (Inl InvalidId, db)
                | Some si \<Rightarrow>
                    (case users db si of
                       None \<Rightarrow> (Inl TypeError, db)
                     | Some student \<Rightarrow>
                         if flt ops (wallet_balance student) (sc_amount session)
                         then (Inl (HTTPException 400 ''Insufficient wallet balance''), db)
                         else
                           (let sid = ''sess_'' @ take 12 uuid1;
                                session_doc =
                                  \<lparr> session_id = sid, s_student_id = user_id,
                                    s_faculty_id = sc_faculty_id session,
                                    s_course_id = sc_course_id session,
                                    s_scheduled_time = sc_scheduled_time session,
                                    s_duration_minutes = sc_duration_minutes session,
                                    s_topic = sc_topic session,
                                    s_amount = sc_amount session,
                                    s_status = ''pending'', s_payment_status = ''pending'',
                                    s_created_at = now, s_updated_at = now,
                                    s_meeting_link = None, s_notes = None \<rparr>;
                                db1 = db \<lparr> sessions := sessions db @ [session_doc] \<rparr>;
                                db2 = db1 \<lparr> users :=
                                        inc_wallet ops si (fneg ops (sc_amount session)) (users db1) \<rparr>;
                                db3 = db2 \<lparr> transactions := transactions db2 @
                                        [\<lparr> t_user_id = user_id, t_amount = sc_amount session,
                                           t_fee_amount = None, t_type = ''debit'',
                                           t_purpose = ''Session booking: '' @ sid,
                                           t_reference_id = sid, t_gateway = None,
                                           t_payment_method = None, t_timestamp = now,
                                           t_original_payment_id = None, t_reason = None \<rparr>] \<rparr>;
                                db4 = db3 \<lparr> notifications := notifications db3 @
                                        [\<lparr> n_user_id = sc_faculty_id session,
                                           n_message = ''New session booking request from '' @
                                             user_name student @ '' for '' @ sc_topic session,
                                           n_type = ''info'', n_read_status = False,
                                           n_timestamp = now \<rparr>] \<rparr>
                            in (Inr (success_response
                                       (VData \<lparr> b_session_id = sid, b_id = inserted_id,
                                                b_status = ''pending'',
                                                b_message =
                                                  ''Session booked. Waiting for faculty confirmation.'' \<rparr>)
                                       ''Session booked successfully''),
                                db4))))))"

text \<open>
  \<^verbatim>\<open>update_session\<close> in \<^verbatim>\<open>app/routes/faculty_routes.py\<close>. The dict \<^verbatim>\<open>update_data\<close>
  is the function it applies to the stored session. \<open>user_id\<close> is
  \<^verbatim>\<open>current_user["user_id"]\<close> of the authenticated faculty. The refund, when there
  is one, is written before the session; the faculty's name is read after it.
\<close>

definition refund_due :: "session_update \<Rightarrow> 'f session \<Rightarrow> bool" where
  "refund_due update session =
     (truthy (su_status update) \<and>
      (su_status update = Some ''rejected'' \<or> su_status update = Some ''cancelled'') \<and>
      s_payment_status session \<noteq> ''refunded'')"

definition update_data :: "int \<Rightarrow> session_update \<Rightarrow> 'f session \<Rightarrow> 'f session \<Rightarrow> 'f session" where
  "update_data now update session =
     (let d0 = (\<lambda>s. s \<lparr> s_updated_at := now \<rparr>);
          d1 = (if truthy (su_status update)
                then
                  (let st = (case su_status update of None \<Rightarrow> [] | Some x \<Rightarrow> x);
                       a = (\<lambda>s. (d0 s) \<lparr> s_status := st \<rparr>);
                       b = (if refund_due update session
                            then (\<lambda>s. (a s) \<lparr> s_payment_status := ''refunded'' \<rparr>) else a);
                       c = (if st = ''accepted''
                            then (\<lambda>s. (b s) \<lparr> s_payment_status := ''completed'' \<rparr>) else b)
                   in c)
                else d0);
          d2 = (if truthy (su_meeting_link update)
                then (\<lambda>s. (d1 s) \<lparr> s_meeting_link := su_meeting_link update \<rparr>) else d1);
          d3 = (if truthy (su_notes update)
                then (\<lambda>s. (d2 s) \<lparr> s_notes := su_notes update \<rparr>) else d2)
      in d3)"

definition status_message :: "string option \<Rightarrow> string" where
  "status_message st =
     (if st = Some ''accepted'' then ''accepted your session request''
      else if st = Some ''rejected'' then ''declined your session request''
      else if st = Some ''completed'' then ''marked your session as completed''
      else if st = Some ''cancelled'' then ''cancelled your session''
      else ''updated your session'')"

definition update_session ::
  "'f float_ops \<Rightarrow> (string \<Rightarrow> 'i option) \<Rightarrow> int \<Rightarrow>
   ('f, 'i) database \<Rightarrow> string \<Rightarrow> session_update \<Rightarrow> string \<Rightarrow>
   (py_error + updated pydict) \<times> ('f, 'i) database" where
  "update_session ops ObjectId now db sid update user_id =
     (case find_one (\<lambda>s. session_id s = sid) (sessions db) of
        None \<Rightarrow> (Inl (HTTPException 404 ''Session not found''), db)
      | Some session \<Rightarrow>
          if s_faculty_id session \<noteq> user_id
          then (Inl (HTTPException 403 ''Not authorized to update this session''), db)
          else
            (case (if refund_due update session
                   then (case ObjectId (s_student_id session) of
                           None \<Rightarrow> Inl InvalidId
                         | Some si \<Rightarrow>
                             Inr (db \<lparr> users := inc_wallet ops si (s_amount session) (users db),
                                       transactions := transactions db @
                                         [\<lparr> t_user_id = s_student_id session,
                                            t_amount = s_amount session,
                                            t_fee_amount = None, t_type = ''credit'',
                                            t_purpose = ''Session refund: '' @ sid,
                                            t_reference_id = sid, t_gateway = None,
                                            t_payment_method = None, t_timestamp = now,
                                            t_original_payment_id = None,
                                            t_reason = None \<rparr>] \<rparr>))
                   else Inr db) of
               Inl e \<Rightarrow> (Inl e, db)
             | Inr db1 \<Rightarrow>
                 (let db2 = db1 \<lparr> sessions :=
                                   update_one (\<lambda>s. session_id s = sid)
                                     (update_data now update session) (sessions db1) \<rparr>
                  in case ObjectId user_id of
                       None \<Rightarrow> (Inl InvalidId, db2)
                     | Some fi \<Rightarrow>
                         (case users db2 fi of
                            None \<Rightarrow> (Inl TypeError, db2)
                          | Some faculty \<Rightarrow>
                              (Inr (success_response
                                      (VData \<lparr> up_session_id = sid,
                                               up_status = su_status update \<rparr>)
                                      ''Session updated successfully''),
                               db2 \<lparr> notifications := notifications db2 @
                                      [\<lparr> n_user_id = s_student_id session,
                                         n_message = user_name faculty @ '' '' @
                                           status_message (su_status update),
                                         n_type = (if su_status update = Some ''accepted''
                                                   then ''info'' else ''warning''),
                                         n_read_status = False,
                                         n_timestamp = now \<rparr>] \<rparr>)))))"

section \<open>One-time passwords: \<^verbatim>\<open>app/services/otp_service.py\<close>\<close>

text \<open>
  The filter of \<^verbatim>\<open>verify_otp\<close>: the email, the code and the purpose, not used, and
  \<^verbatim>\<open>expires_at\<close> after the clock reading.
\<close>

definition otp_valid :: "int \<Rightarrow> string \<Rightarrow> string \<Rightarrow> string \<Rightarrow> otp \<Rightarrow> bool" where
  "otp_valid now email code purpose d =
     (otp_email d = email \<and> otp_code d = code \<and> otp_purpose d = purpose \<and>
      \<not> otp_is_used d \<and> now < otp_expires_at d)"

definition verify_otp ::
  "int \<Rightarrow> ('f, 'i) database \<Rightarrow> string \<Rightarrow> string \<Rightarrow> string \<Rightarrow> bool \<times> ('f, 'i) database" where
  "verify_otp now db email code purpose =
     (case find_one (otp_valid now email code purpose) (otps db) of
        None \<Rightarrow> (False, db)
      | Some d \<Rightarrow>
          (True,
           db \<lparr> otps := update_one (\<lambda>x. otp_oid x = otp_oid d)
                          (\<lambda>x. x \<lparr> otp_is_used := True \<rparr>) (otps db) \<rparr>))"

text \<open>
  \<^verbatim>\<open>create_otp\<close>: \<open>code\<close> is the drawn \<^verbatim>\<open>generate_otp()\<close>, \<open>new_oid\<close> the \<^verbatim>\<open>_id\<close> the
  store gives the document; the expiry is 10 minutes, 600000000 microseconds. Sending the
  mail does not touch the store.
\<close>

definition create_otp ::
  "int \<Rightarrow> string \<Rightarrow> nat \<Rightarrow> ('f, 'i) database \<Rightarrow> string \<Rightarrow> string \<Rightarrow> string \<times> ('f, 'i) database" where
  "create_otp now code new_oid db email purpose =
     (code,
      db \<lparr> otps := otps db @
             [\<lparr> otp_oid = new_oid, otp_email = email, otp_code = code,
                otp_purpose = purpose, otp_expires_at = now + 600000000,
                otp_is_used = False, otp_created_at = now \<rparr>] \<rparr>)"

definition resend_otp ::
  "int \<Rightarrow> string \<Rightarrow> nat \<Rightarrow> ('f, 'i) database \<Rightarrow> string \<Rightarrow> string \<Rightarrow> string \<times> ('f, 'i) database" where
  "resend_otp now code new_oid db email purpose =
     create_otp now code new_oid
       (db \<lparr> otps := update_many
                (\<lambda>x. otp_email x = email \<and> otp_purpose x = purpose \<and> \<not> otp_is_used x)
                (\<lambda>x. x \<lparr> otp_is_used := True \<rparr>) (otps db) \<rparr>)
       email purpose"

section \<open>Sample documents\<close>

text \<open>
  A student, a faculty member, a session of 30.00, a payment of 100.00 by card through Stripe and a store that holds them, used
  to evaluate the handlers at concrete inputs. \<open>sample_ObjectId\<close> knows the two users.
\<close>

definition sample_user_id :: string where
  "sample_user_id = ''650000000000000000000001''"

definition sample_faculty_id :: string where
  "sample_faculty_id = ''650000000000000000000002''"

definition sample_ObjectId :: "string \<Rightarrow> nat option" where
  "sample_ObjectId s =
     (if s = sample_user_id then Some 1 else if s = sample_faculty_id then Some 2 else None)"

definition sample_payment :: "string \<Rightarrow> rat payment" where
  "sample_payment st =
     \<lparr> payment_id = ''pay_0123456789abcdef'', order_id = ''order_fedcba9876543210'',
       p_user_id = sample_user_id, p_amount = 100, p_fee_amount = 16 / 5,
       p_total_amount = 516 / 5, p_currency = ''USD'', p_purpose = Some ''wallet_recharge'',
       p_gateway = ''stripe'', p_payment_method = ''card'', p_status = st,
       p_created_at = 0, p_expires_at = 1800000000,
       p_verified_at = None, p_signature = None, p_gateway_response = None,
       p_refund_id = None, p_refund_amount = None, p_refund_reason = None,
       p_refunded_at = None \<rparr>"

definition sample_user :: "rat \<Rightarrow> rat user" where
  "sample_user balance =
     \<lparr> user_name = ''Asha'', user_role = ''student'', user_verified = True,
       wallet_balance = balance \<rparr>"

definition sample_db :: "string \<Rightarrow> rat \<Rightarrow> (rat, nat) database" where
  "sample_db st balance =
     \<lparr> payments = [sample_payment st], users = [1 \<mapsto> sample_user balance],
       transactions = [], sessions = [], notifications = [], otps = [] \<rparr>"

definition sample_faculty :: "rat user" where
  "sample_faculty =
     \<lparr> user_name = ''Dr. Rao'', user_role = ''faculty'', user_verified = True,
       wallet_balance = 0 \<rparr>"

definition sample_booking :: "rat session_create" where
  "sample_booking =
     \<lparr> sc_faculty_id = sample_faculty_id, sc_course_id = ''course_1'',
       sc_scheduled_time = 3600000000, sc_duration_minutes = 60,
       sc_topic = ''Algebra'', sc_amount = 30 \<rparr>"

definition sample_session :: "string \<Rightarrow> string \<Rightarrow> rat session" where
  "sample_session st pst =
     \<lparr> session_id = ''sess_0123456789ab'', s_student_id = sample_user_id,
       s_faculty_id = sample_faculty_id, s_course_id = ''course_1'',
       s_scheduled_time = 3600000000, s_duration_minutes = 60,
       s_topic = ''Algebra'', s_amount = 30,
       s_status = st, s_payment_status = pst,
       s_created_at = 0, s_updated_at = 0,
       s_meeting_link = None, s_notes = None \<rparr>"

definition campus_db :: "rat session list \<Rightarrow> rat \<Rightarrow> (rat, nat) database" where
  "campus_db ss balance =
     \<lparr> payments = [], users = [1 \<mapsto> sample_user balance, 2 \<mapsto> sample_faculty],
       transactions = [], sessions = ss, notifications = [], otps = [] \<rparr>"

definition sample_otp :: "nat \<Rightarrow> otp" where
  "sample_otp i =
     \<lparr> otp_oid = i, otp_email = ''asha@example.edu'', otp_code = ''123456'',
       otp_purpose = ''login'', otp_expires_at = 600000000, otp_is_used = False,
       otp_created_at = 0 \<rparr>"

definition otp_db :: "otp list \<Rightarrow> (rat, nat) database" where
  "otp_db ds =
     \<lparr> payments = [], users = Map.empty, transactions = [], sessions = [],
       notifications = [], otps = ds \<rparr>"


section \<open>Properties of test scoring\<close>

lemma eval_loop_sums:
  "i + length qs = length answers \<Longrightarrow>
   \<exists>results'. eval_loop qs answers i sc tot results =
     Inr (sc + sum_list (map earned (zip qs (drop i answers))),
          tot + sum_list (map marks qs), results')"
proof (induction qs arbitrary: i sc tot results)
  case Nil
  then show ?case by simp
next
  case (Cons q qs)
  from Cons.prems have i: "i < length answers" and rest: "Suc i + length qs = length answers"
    by simp_all
  from i have d: "drop i answers = answers ! i # drop (Suc i) answers"
    by (simp add: Cons_nth_drop_Suc)
  show ?case
  proof (cases "answers ! i = correct_answer q")
    case True
    from Cons.IH [OF rest, of "sc + marks q" "tot + marks q"] True i show ?thesis
      by (simp add: d earned_def add.assoc)
  next
    case False
    from Cons.IH [OF rest, of sc "tot + marks q"] False i show ?thesis
      by (simp add: d earned_def add.assoc)
  qed
qed

lemma eval_loop_no_raise:
  "i + length qs = length answers \<Longrightarrow> eval_loop qs answers i sc tot results \<noteq> Inl e"
  using eval_loop_sums [of i qs answers sc tot results] by auto

text \<open>
  Claim C2, as the code has it. For a list of questions and a list of submitted answers of
  the same length, \<^verbatim>\<open>evaluate_test\<close> returns the result dict; its score is the sum of
  the marks of the questions whose submitted answer, at the same index, equals the
  correct answer; its total is the sum of all marks; its percentage is
  \<^verbatim>\<open>round(score / total_marks * 100, 2)\<close> when the total is positive and 0 otherwise
  (marks are unconstrained ints, so a total can be negative).
\<close>

theorem evaluate_test_scores:
  assumes "length answers = length questions"
  shows "\<exists>r. evaluate_test ops now questions answers sid tid = Result_dict r \<and>
       score r = sum_list (map earned (zip questions answers)) \<and>
       total_marks r = sum_list (map marks questions) \<and>
       percentage r =
         (if 0 < total_marks r
          then PyFloat (fround2 ops (fmul ops (ftruediv ops (score r) (total_marks r)) (fof_int ops 100)))
          else PyInt 0)"
proof -
  from assms have "0 + length questions = length answers" by simp
  from eval_loop_sums [OF this, of 0 0 "[]"] obtain results where
    "eval_loop questions answers 0 0 0 [] =
       Inr (sum_list (map earned (zip questions answers)), sum_list (map marks questions), results)"
    by auto
  with assms show ?thesis
    by (simp add: evaluate_test_def)
qed

theorem evaluate_test_scores_witness:
  "length [1, 1 :: int] =
     length [\<lparr>question_text = ''q1'', options = [''a'', ''b''], correct_answer = 1, marks = 2\<rparr>,
             \<lparr>question_text = ''q2'', options = [''a'', ''b''], correct_answer = 0, marks = 3\<rparr>] \<and>
   (\<exists>r. evaluate_test exact_ops 0
          [\<lparr>question_text = ''q1'', options = [''a'', ''b''], correct_answer = 1, marks = 2\<rparr>,
           \<lparr>question_text = ''q2'', options = [''a'', ''b''], correct_answer = 0, marks = 3\<rparr>]
          [1, 1] ''s'' ''t'' = Result_dict r \<and>
        score r = 2 \<and> total_marks r = 5 \<and> percentage r = PyFloat 40)"
proof -
  let ?qs = "[\<lparr>question_text = ''q1'', options = [''a'', ''b''], correct_answer = 1, marks = 2\<rparr>,
              \<lparr>question_text = ''q2'', options = [''a'', ''b''], correct_answer = 0, marks = 3\<rparr>]"
  have len: "length [1, 1 :: int] = length ?qs" by simp
  from evaluate_test_scores [OF len, of exact_ops 0 "''s''" "''t''"] obtain r where
    r: "evaluate_test exact_ops 0 ?qs [1, 1] ''s'' ''t'' = Result_dict r"
    and s: "score r = sum_list (map earned (zip ?qs [1, 1]))"
    and t: "total_marks r = sum_list (map marks ?qs)"
    and p: "percentage r =
         (if 0 < total_marks r
          then PyFloat (fround2 exact_ops
                 (fmul exact_ops (ftruediv exact_ops (score r) (total_marks r)) (fof_int exact_ops 100)))
          else PyInt 0)"
    by blast
  from s have s': "score r = 2" by (simp add: earned_def)
  from t have t': "total_marks r = 5" by simp
  from p have "percentage r = PyFloat 40"
    unfolding s' t' by (simp add: exact_ops_def round_half_even_def)
  with len r s' t' show ?thesis by blast
qed

text \<open>
  Claim C2 as stated gives the rounded quotient whenever the total is not 0. One question
  worth \<open>-1\<close> mark, answered correctly: the total is \<open>-1\<close>, the code returns the
  percentage 0, the stated formula gives 100.
\<close>

theorem evaluate_test_percentage_counterexample:
  "evaluate_test exact_ops 0
     [\<lparr>question_text = ''q'', options = [''a''], correct_answer = 0, marks = - 1\<rparr>] [0] ''s'' ''t'' =
   Result_dict
     \<lparr> tr_test_id = ''t'', tr_student_id = ''s'', score = - 1, total_marks = - 1,
       percentage = PyInt 0,
       detailed_results =
         [\<lparr> question_number = 1, dr_question_text = ''q'', submitted_answer = 0,
            dr_correct_answer = 0, is_correct = True, marks_obtained = - 1,
            dr_total_marks = - 1 \<rparr>],
       submitted_at = 0 \<rparr> \<and>
   spec_percentage exact_ops (- 1) (- 1) = PyFloat 100"
  by (simp add: evaluate_test_def spec_percentage_def exact_ops_def round_half_even_def)

text \<open>
  Claim C9. When the number of submitted answers differs from the number of questions,
  \<^verbatim>\<open>evaluate_test\<close> returns the error dict, which carries no score; and on no input
  does it raise: the index \<open>i\<close> of the loop is read from \<^verbatim>\<open>submitted_answers\<close> only
  when the lengths agree.
\<close>

theorem evaluate_test_length_mismatch:
  "(length answers \<noteq> length questions \<longrightarrow>
      evaluate_test ops now questions answers sid tid =
        Error_dict ''Number of answers doesn't match number of questions'') \<and>
   (\<forall>e. evaluate_test ops now questions answers sid tid \<noteq> Raises e)"
proof (cases "length answers = length questions")
  case True
  then have "0 + length questions = length answers" by simp
  from eval_loop_sums [OF this, of 0 0 "[]"] True show ?thesis
    by (auto simp: evaluate_test_def)
next
  case False
  then show ?thesis by (simp add: evaluate_test_def answers_mismatch_def)
qed

theorem evaluate_test_length_mismatch_witness:
  "length [1, 2 :: int] \<noteq> length [\<lparr>question_text = ''q'', options = [], correct_answer = 1, marks = 1\<rparr>] \<and>
   evaluate_test exact_ops 0 [\<lparr>question_text = ''q'', options = [], correct_answer = 1, marks = 1\<rparr>]
     [1, 2] ''s'' ''t'' = Error_dict ''Number of answers doesn't match number of questions''"
  using evaluate_test_length_mismatch
    [of "[1, 2]" "[\<lparr>question_text = ''q'', options = [], correct_answer = 1, marks = 1\<rparr>]"
        exact_ops 0 "''s''" "''t''"]
  by simp

section \<open>Properties of the rate limiter\<close>

lemma is_allowed_step:
  "is_allowed ops now requests key limit_type =
     (let kept = filter (within_window ops (snd (limit_of limit_type)) now) (requests key)
      in if length kept < fst (limit_of limit_type)
         then (True, requests (key := kept @ [now]))
         else (False, requests (key := kept)))"
  by (cases "limit_of limit_type") (simp add: is_allowed_def Let_def)

lemma calls_open:
  "window_open ops (snd (limit_of limit_type)) nows \<Longrightarrow>
   \<forall>t \<in> set nows. \<forall>x \<in> set (requests key). within_window ops (snd (limit_of limit_type)) t x \<Longrightarrow>
   fst (calls ops key limit_type nows requests) =
     map (\<lambda>i. length (requests key) + i < fst (limit_of limit_type)) [0 ..< length nows]"
proof (induction nows arbitrary: requests)
  case Nil
  then show ?case by simp
next
  case (Cons t nows)
  let ?w = "snd (limit_of limit_type)" and ?l = "fst (limit_of limit_type)"
  from Cons.prems(2) have kept: "filter (within_window ops ?w t) (requests key) = requests key"
    by (simp add: filter_id_conv)
  obtain ok requests1 where step: "is_allowed ops t requests key limit_type = (ok, requests1)"
    by (cases "is_allowed ops t requests key limit_type")
  from step kept have ok: "ok = (length (requests key) < ?l)"
    and r1: "requests1 key = (if ok then requests key @ [t] else requests key)"
    by (auto simp: is_allowed_step Let_def split: if_splits)
  from Cons.prems have opn: "window_open ops ?w nows" by simp
  have fresh: "\<forall>t' \<in> set nows. \<forall>x \<in> set (requests1 key). within_window ops ?w t' x"
    using Cons.prems r1 by auto
  have ih: "fst (calls ops key limit_type nows requests1) =
     map (\<lambda>i. length (requests1 key) + i < ?l) [0 ..< length nows]"
    using Cons.IH [of requests1] opn fresh by blast
  have shift: "[0 ..< length (t # nows)] = 0 # map Suc [0 ..< length nows]"
    by (simp add: map_Suc_upt upt_conv_Cons del: upt_Suc)
  show ?case
    unfolding shift using step ih ok r1
    by (auto simp: split_beta Let_def)
qed


lemma count_below: "length (filter (\<lambda>b. b) (map (\<lambda>i. i < l) [0 ..< n])) = min n l"
proof -
  have "length (filter (\<lambda>i. i < l) [0 ..< n]) = min n l"
    by (induction n) auto
  then show ?thesis by (simp add: filter_map comp_def)
qed

text \<open>
  Claim C7. The configured limits are 5 per 60 seconds for \<open>auth\<close> and 100 per 60 seconds
  for \<open>api\<close>. A call of \<^verbatim>\<open>is_allowed\<close> first discards from the key's list every entry
  that is not within the window of \<open>now\<close>, and nothing else expires: the lists of the
  other keys stay as they are. It returns True exactly when fewer than \<open>limit\<close> entries
  remain, and then appends \<open>now\<close>, so the list never holds more than \<open>limit\<close> entries
  after an admitted request. Over a run of calls for one key that starts from an empty
  list, while the window has not elapsed, the first \<open>limit\<close> calls are admitted and every
  later one is refused.
\<close>

theorem rate_limiter_window:
  "rate_limits ''auth'' = Some (5, 60) \<and> rate_limits ''api'' = Some (100, 60) \<and>
   fst (is_allowed ops now requests key limit_type) =
     (length (filter (within_window ops (snd (limit_of limit_type)) now) (requests key))
        < fst (limit_of limit_type)) \<and>
   snd (is_allowed ops now requests key limit_type) key =
     filter (within_window ops (snd (limit_of limit_type)) now) (requests key) @
       (if fst (is_allowed ops now requests key limit_type) then [now] else []) \<and>
   (fst (is_allowed ops now requests key limit_type) \<longrightarrow>
      length (snd (is_allowed ops now requests key limit_type) key) \<le> fst (limit_of limit_type)) \<and>
   (\<forall>k. k \<noteq> key \<longrightarrow> snd (is_allowed ops now requests key limit_type) k = requests k) \<and>
   (requests key = [] \<and> window_open ops (snd (limit_of limit_type)) nows \<longrightarrow>
      fst (calls ops key limit_type nows requests) =
        map (\<lambda>i. i < fst (limit_of limit_type)) [0 ..< length nows] \<and>
      length (filter (\<lambda>ok. ok) (fst (calls ops key limit_type nows requests)))
        = min (length nows) (fst (limit_of limit_type)))"
proof -
  let ?r = "is_allowed ops now requests key limit_type"
  have table: "rate_limits ''auth'' = Some (5, 60) \<and> rate_limits ''api'' = Some (100, 60)"
    by (simp add: rate_limits_def)
  have step: "fst ?r =
     (length (filter (within_window ops (snd (limit_of limit_type)) now) (requests key))
        < fst (limit_of limit_type)) \<and>
   snd ?r key =
     filter (within_window ops (snd (limit_of limit_type)) now) (requests key) @
       (if fst ?r then [now] else []) \<and>
   (fst ?r \<longrightarrow> length (snd ?r key) \<le> fst (limit_of limit_type)) \<and>
   (\<forall>k. k \<noteq> key \<longrightarrow> snd ?r k = requests k)"
    by (simp add: is_allowed_step Let_def)
  have run: "fst (calls ops key limit_type nows requests) =
        map (\<lambda>i. i < fst (limit_of limit_type)) [0 ..< length nows]"
    if "requests key = [] \<and> window_open ops (snd (limit_of limit_type)) nows"
    using calls_open [of ops limit_type nows requests key] that by simp
  have cnt: "length (filter (\<lambda>ok. ok) (fst (calls ops key limit_type nows requests)))
        = min (length nows) (fst (limit_of limit_type))"
    if "requests key = [] \<and> window_open ops (snd (limit_of limit_type)) nows"
    using run [OF that] by (simp only: count_below)
  from table step run cnt show ?thesis by blast
qed

theorem rate_limiter_window_witness:
  "window_open exact_ops (snd (limit_of ''auth'')) [0, 10, 20, 30, 40, 50] \<and>
   fst (calls exact_ops ''10.0.0.1'' ''auth'' [0, 10, 20, 30, 40, 50] (\<lambda>k. [])) =
     [True, True, True, True, True, False]"
proof -
  have lim: "limit_of ''auth'' = (5, 60)"
    by (simp add: limit_of_def rate_limits_def)
  have opn: "window_open exact_ops (snd (limit_of ''auth'')) [0, 10, 20, 30, 40, 50]"
    by (simp add: lim within_window_def exact_ops_def)
  from rate_limiter_window [of exact_ops 0 "\<lambda>k. []" "''10.0.0.1''" "''auth''" "[0, 10, 20, 30, 40, 50]"] opn
  have "fst (calls exact_ops ''10.0.0.1'' ''auth'' [0, 10, 20, 30, 40, 50] (\<lambda>k. [])) =
        map (\<lambda>i. i < fst (limit_of ''auth'')) [0 ..< length [0, 10, 20, 30, 40, 50 :: rat]]"
    by blast
  also have "\<dots> = [True, True, True, True, True, False]"
    by (simp add: lim upt_conv_Cons del: upt_Suc)
  finally show ?thesis using opn by blast
qed

section \<open>Properties of the response envelopes\<close>

text \<open>
  Claim C6 as stated asks for exactly the keys success, message, data and timestamp in
  every successful response. The helper the route modules call returns three keys, and
  \<open>timestamp\<close> is not among them.
\<close>

theorem success_response_keys_counterexample:
  "map fst (success_response (VData (7 :: nat)) ''Sessions retrieved successfully'') =
     [''success'', ''message'', ''data''] \<and>
   ''timestamp'' \<notin> set (map fst (success_response (VData (7 :: nat)) ''Sessions retrieved successfully''))"
  by (simp add: success_response_def)

text \<open>
  Claim C6, as the code has it. \<^verbatim>\<open>helpers.success_response\<close> returns exactly the keys
  success (True), message and data. \<^verbatim>\<open>enhanced_responses.success_response\<close> returns
  success (True), message and timestamp, then data when the data is not None, then meta
  when the meta dict is not empty.
\<close>

theorem success_response_keys:
  "map fst (success_response data message) = [''success'', ''message'', ''data''] \<and>
   map_of (success_response data message) ''success'' = Some (VBool True) \<and>
   map_of (success_response data message) ''message'' = Some (VStr message) \<and>
   map_of (success_response data message) ''data'' = Some data \<and>
   map fst (enhanced_success_response timestamp data message meta) =
     [''success'', ''message'', ''timestamp''] @
     (if data = VNone then [] else [''data'']) @
     (if meta = None \<or> meta = Some [] then [] else [''meta'']) \<and>
   map_of (enhanced_success_response timestamp data message meta) ''success'' = Some (VBool True) \<and>
   map_of (enhanced_success_response timestamp data message meta) ''timestamp'' = Some (VStr timestamp)"
  by (cases meta) (simp_all add: success_response_def enhanced_success_response_def)

section \<open>Properties of the payment service\<close>

lemma base_rate_table:
  "base_rate ''razorpay'' ''card'' = 299 / 10000"
  "base_rate ''razorpay'' ''upi'' = 0"
  "base_rate ''razorpay'' ''wallet'' = 199 / 10000"
  "base_rate ''razorpay'' ''netbanking'' = 199 / 10000"
  "base_rate ''razorpay'' ''bank_transfer'' = 0"
  "m \<in> set supported_payment_methods \<Longrightarrow> base_rate ''stripe'' m = 29 / 1000"
  "m \<in> set supported_payment_methods \<Longrightarrow> base_rate ''paypal'' m = 29 / 1000"
  by (auto simp: base_rate_def fee_rates_def supported_payment_methods_def)

text \<open>
  Claim C3 as stated has \<^verbatim>\<open>initiate_payment\<close> return the total for every amount. For
  Razorpay and Stripe the gateway response holds \<^verbatim>\<open>int(total_amount * 100)\<close>, and no
  bound keeps the product finite: at the amount \<open>10^307\<close>, paid by UPI through Razorpay,
  the fee is 0, the total is the amount, a hundred times the total is beyond the doubles
  and the call raises OverflowError instead of returning.
\<close>

theorem initiate_payment_overflow_counterexample:
  "''razorpay'' \<in> set supported_gateways \<and> ''INR'' \<in> set supported_currencies \<and>
   ''upi'' \<in> set supported_payment_methods \<and>
   calculate_fees range_ops (Finite (10 ^ 307)) ''razorpay'' ''upi'' = Finite 0 \<and>
   fst (initiate_payment range_ops ''rzp_test_mock'' 0 ''0123456789abcdef0123''
          ''fedcba98765432100000'' ''00112233445566778899aabbccdd''
          (empty_db :: (xfloat, nat) database) ''u1'' (Finite (10 ^ 307)) ''INR''
          ''wallet_recharge'' ''razorpay'' ''upi'') = Inl OverflowError"
  by (simp add: initiate_payment_def generate_gateway_response_def calculate_fees_def
      base_rate_def fee_rates_def supported_gateways_def supported_currencies_def
      supported_payment_methods_def range_ops_def clip_def round_half_even_def Let_def)

text \<open>
  Claim C3, as the code has it. For every amount the fee of a supported gateway and
  payment method is the rounded product of the amount with the rate of the table
  (razorpay: card 2.99\%, upi 0\%, wallet 1.99\%, netbanking 1.99\%, bank transfer 0\%;
  stripe and paypal: 2.9\% for every method), with the fixed 0.30 added before rounding
  for stripe and paypal. When gateway, currency and payment method are supported and the
  gateway response can be built (always for paypal; for razorpay and stripe when
  \<^verbatim>\<open>int(total_amount * 100)\<close> yields an int), \<^verbatim>\<open>initiate_payment\<close> stores and returns
  the amount, this fee and their sum as the total. It raises ValueError, leaving the
  store as it was, when the gateway, the currency or the payment method is not supported.
\<close>

theorem fee_lookup_and_total:
  "calculate_fees ops a ''razorpay'' ''card'' = fround2 ops (fmul ops a (flit ops (299 / 10000))) \<and>
   calculate_fees ops a ''razorpay'' ''upi'' = fround2 ops (fmul ops a (flit ops 0)) \<and>
   calculate_fees ops a ''razorpay'' ''wallet'' = fround2 ops (fmul ops a (flit ops (199 / 10000))) \<and>
   calculate_fees ops a ''razorpay'' ''netbanking'' = fround2 ops (fmul ops a (flit ops (199 / 10000))) \<and>
   calculate_fees ops a ''razorpay'' ''bank_transfer'' = fround2 ops (fmul ops a (flit ops 0)) \<and>
   (m \<in> set supported_payment_methods \<longrightarrow>
      calculate_fees ops a ''stripe'' m =
        fround2 ops (fadd ops (fmul ops a (flit ops (29 / 1000))) (flit ops (30 / 100))) \<and>
      calculate_fees ops a ''paypal'' m =
        fround2 ops (fadd ops (fmul ops a (flit ops (29 / 1000))) (flit ops (30 / 100)))) \<and>
   (g \<in> set supported_gateways \<and> c \<in> set supported_currencies \<and>
    m \<in> set supported_payment_methods \<and>
    (g = ''paypal'' \<or>
     fint ops (fmul ops (fadd ops a (calculate_fees ops a g m)) (fof_int ops 100)) = Inr minor) \<longrightarrow>
      (\<exists>r. initiate_payment ops kid now ua ub uc db uid a c purpose g m =
             (Inr r, db \<lparr> payments := payments db @
                [\<lparr> payment_id = i_payment_id r, order_id = i_order_id r, p_user_id = uid,
                   p_amount = a, p_fee_amount = calculate_fees ops a g m,
                   p_total_amount = fadd ops a (calculate_fees ops a g m),
                   p_currency = c, p_purpose = Some purpose, p_gateway = g,
                   p_payment_method = m, p_status = ''created'',
                   p_created_at = now, p_expires_at = now + 1800000000,
                   p_verified_at = None, p_signature = None, p_gateway_response = None,
                   p_refund_id = None, p_refund_amount = None, p_refund_reason = None,
                   p_refunded_at = None \<rparr>] \<rparr>) \<and>
           i_amount r = a \<and>
           i_fee_amount r = calculate_fees ops a g m \<and>
           i_total_amount r = fadd ops a (calculate_fees ops a g m) \<and>
           i_status r = ''created'')) \<and>
   (g \<notin> set supported_gateways \<longrightarrow>
      initiate_payment ops kid now ua ub uc db uid a c purpose g m =
        (Inl (ValueError (''Unsupported gateway: '' @ g)), db)) \<and>
   (g \<in> set supported_gateways \<and> c \<notin> set supported_currencies \<longrightarrow>
      initiate_payment ops kid now ua ub uc db uid a c purpose g m =
        (Inl (ValueError (''Unsupported currency: '' @ c)), db)) \<and>
   (g \<in> set supported_gateways \<and> c \<in> set supported_currencies \<and>
    m \<notin> set supported_payment_methods \<longrightarrow>
      initiate_payment ops kid now ua ub uc db uid a c purpose g m =
        (Inl (ValueError (''Unsupported payment method: '' @ m)), db))"
proof -
  have fees: "calculate_fees ops a ''razorpay'' ''card'' = fround2 ops (fmul ops a (flit ops (299 / 10000)))"
    "calculate_fees ops a ''razorpay'' ''upi'' = fround2 ops (fmul ops a (flit ops 0))"
    "calculate_fees ops a ''razorpay'' ''wallet'' = fround2 ops (fmul ops a (flit ops (199 / 10000)))"
    "calculate_fees ops a ''razorpay'' ''netbanking'' = fround2 ops (fmul ops a (flit ops (199 / 10000)))"
    "calculate_fees ops a ''razorpay'' ''bank_transfer'' = fround2 ops (fmul ops a (flit ops 0))"
    by (simp_all add: calculate_fees_def base_rate_table)
  have sp: "calculate_fees ops a ''stripe'' m =
        fround2 ops (fadd ops (fmul ops a (flit ops (29 / 1000))) (flit ops (30 / 100))) \<and>
      calculate_fees ops a ''paypal'' m =
        fround2 ops (fadd ops (fmul ops a (flit ops (29 / 1000))) (flit ops (30 / 100)))"
    if "m \<in> set supported_payment_methods"
    using that by (simp add: calculate_fees_def base_rate_table)
  have ok: "\<exists>r. initiate_payment ops kid now ua ub uc db uid a c purpose g m =
             (Inr r, db \<lparr> payments := payments db @
                [\<lparr> payment_id = i_payment_id r, order_id = i_order_id r, p_user_id = uid,
                   p_amount = a, p_fee_amount = calculate_fees ops a g m,
                   p_total_amount = fadd ops a (calculate_fees ops a g m),
                   p_currency = c, p_purpose = Some purpose, p_gateway = g,
                   p_payment_method = m, p_status = ''created'',
                   p_created_at = now, p_expires_at = now + 1800000000,
                   p_verified_at = None, p_signature = None, p_gateway_response = None,
                   p_refund_id = None, p_refund_amount = None, p_refund_reason = None,
                   p_refunded_at = None \<rparr>] \<rparr>) \<and>
           i_amount r = a \<and>
           i_fee_amount r = calculate_fees ops a g m \<and>
           i_total_amount r = fadd ops a (calculate_fees ops a g m) \<and>
           i_status r = ''created''"
    if h: "g \<in> set supported_gateways \<and> c \<in> set supported_currencies \<and>
        m \<in> set supported_payment_methods \<and>
        (g = ''paypal'' \<or>
         fint ops (fmul ops (fadd ops a (calculate_fees ops a g m)) (fof_int ops 100)) = Inr minor)"
  proof -
    from h consider "g = ''razorpay''" | "g = ''stripe''" | "g = ''paypal''"
      by (auto simp: supported_gateways_def)
    then show ?thesis
    proof cases
      case 1
      with h have "fint ops (fmul ops (fadd ops a (calculate_fees ops a ''razorpay'' m))
          (fof_int ops 100)) = Inr minor"
        by simp
      with 1 h show ?thesis
        by (simp add: initiate_payment_def generate_gateway_response_def Let_def)
    next
      case 2
      with h have "fint ops (fmul ops (fadd ops a (calculate_fees ops a ''stripe'' m))
          (fof_int ops 100)) = Inr minor"
        by simp
      with 2 h show ?thesis
        by (simp add: initiate_payment_def generate_gateway_response_def Let_def)
    next
      case 3
      with h show ?thesis
        by (simp add: initiate_payment_def generate_gateway_response_def Let_def)
    qed
  qed
  have bad: "g \<notin> set supported_gateways \<longrightarrow>
      initiate_payment ops kid now ua ub uc db uid a c purpose g m =
        (Inl (ValueError (''Unsupported gateway: '' @ g)), db)"
    "g \<in> set supported_gateways \<and> c \<notin> set supported_currencies \<longrightarrow>
      initiate_payment ops kid now ua ub uc db uid a c purpose g m =
        (Inl (ValueError (''Unsupported currency: '' @ c)), db)"
    "g \<in> set supported_gateways \<and> c \<in> set supported_currencies \<and>
    m \<notin> set supported_payment_methods \<longrightarrow>
      initiate_payment ops kid now ua ub uc db uid a c purpose g m =
        (Inl (ValueError (''Unsupported payment method: '' @ m)), db)"
    by (simp_all add: initiate_payment_def)
  from fees sp ok bad show ?thesis by blast
qed

theorem fee_lookup_and_total_witness:
  "''stripe'' \<in> set supported_gateways \<and> ''USD'' \<in> set supported_currencies \<and>
   ''card'' \<in> set supported_payment_methods \<and>
   calculate_fees exact_ops 1000 ''stripe'' ''card'' = 293 / 10 \<and>
   fint exact_ops (fmul exact_ops (fadd exact_ops 1000 (calculate_fees exact_ops 1000 ''stripe'' ''card''))
     (fof_int exact_ops 100)) = Inr 102930 \<and>
   (\<exists>r. fst (initiate_payment exact_ops ''rzp_test_mock'' 0 ''0123456789abcdef0123''
              ''fedcba98765432100000'' ''00112233445566778899aabbccdd''
              (empty_db :: (rat, nat) database) ''u1'' 1000 ''USD'' ''wallet_recharge'' ''stripe'' ''card'')
           = Inr r \<and> i_total_amount r = 10293 / 10) \<and>
   ''bitcoin'' \<notin> set supported_gateways \<and>
   initiate_payment exact_ops ''rzp_test_mock'' 0 ''0123456789abcdef0123''
     ''fedcba98765432100000'' ''00112233445566778899aabbccdd''
     (empty_db :: (rat, nat) database) ''u1'' 1000 ''USD'' ''wallet_recharge'' ''bitcoin'' ''card''
     = (Inl (ValueError ''Unsupported gateway: bitcoin''), empty_db)"
proof -
  let ?db = "empty_db :: (rat, nat) database"
  let ?I = "\<lambda>g. initiate_payment exact_ops ''rzp_test_mock'' 0 ''0123456789abcdef0123''
     ''fedcba98765432100000'' ''00112233445566778899aabbccdd''
     ?db ''u1'' 1000 ''USD'' ''wallet_recharge'' g ''card''"
  have g: "''stripe'' \<in> set supported_gateways" by (simp add: supported_gateways_def)
  have c: "''USD'' \<in> set supported_currencies" by (simp add: supported_currencies_def)
  have m: "''card'' \<in> set supported_payment_methods" by (simp add: supported_payment_methods_def)
  have b: "''bitcoin'' \<notin> set supported_gateways" by (simp add: supported_gateways_def)
  note ok = fee_lookup_and_total
    [where ops = exact_ops and a = 1000 and m = "''card''" and g = "''stripe''" and c = "''USD''"
       and minor = 102930 and kid = "''rzp_test_mock''" and now = 0
       and ua = "''0123456789abcdef0123''" and ub = "''fedcba98765432100000''"
       and uc = "''00112233445566778899aabbccdd''" and db = ?db and uid = "''u1''"
       and purpose = "''wallet_recharge''"]
  note bad = fee_lookup_and_total
    [where ops = exact_ops and a = 1000 and m = "''card''" and g = "''bitcoin''" and c = "''USD''"
       and minor = 102930 and kid = "''rzp_test_mock''" and now = 0
       and ua = "''0123456789abcdef0123''" and ub = "''fedcba98765432100000''"
       and uc = "''00112233445566778899aabbccdd''" and db = ?db and uid = "''u1''"
       and purpose = "''wallet_recharge''"]
  from ok m have "calculate_fees exact_ops 1000 ''stripe'' ''card'' =
      fround2 exact_ops (fadd exact_ops (fmul exact_ops 1000 (flit exact_ops (29 / 1000)))
        (flit exact_ops (30 / 100)))"
    by blast
  also have "\<dots> = 293 / 10"
    by (simp add: exact_ops_def round_half_even_def)
  finally have fee: "calculate_fees exact_ops 1000 ''stripe'' ''card'' = 293 / 10" .
  have i: "fint exact_ops (fmul exact_ops (fadd exact_ops 1000
      (calculate_fees exact_ops 1000 ''stripe'' ''card'')) (fof_int exact_ops 100)) = Inr 102930"
    unfolding fee by (simp add: exact_ops_def trunc_int_def)
  from ok g c m i obtain r where
    t: "i_total_amount r = fadd exact_ops 1000 (calculate_fees exact_ops 1000 ''stripe'' ''card'')"
    and r: "fst (?I ''stripe'') = Inr r"
    by force
  from t have t': "i_total_amount r = 10293 / 10"
    unfolding fee by (simp add: exact_ops_def)
  from r t' have ex: "\<exists>r. fst (?I ''stripe'') = Inr r \<and> i_total_amount r = 10293 / 10"
    by blast
  from bad b have e: "?I ''bitcoin'' = (Inl (ValueError (''Unsupported gateway: '' @ ''bitcoin'')), ?db)"
    by blast
  then have e': "?I ''bitcoin'' = (Inl (ValueError ''Unsupported gateway: bitcoin''), ?db)"
    by simp
  show ?thesis
    by (rule conjI [OF g conjI [OF c conjI [OF m conjI [OF fee conjI [OF i conjI [OF ex
        conjI [OF b e']]]]]]])
qed

section \<open>Properties of the payment lifecycle\<close>

lemma update_one_length [simp]: "length (update_one P f docs) = length docs"
  by (induction docs) auto

lemma update_one_absent: "find_one P docs = None \<Longrightarrow> update_one P f docs = docs"
  by (induction docs) (auto simp: find_one_def split: if_splits)


lemma find_one_update_one:
  "find_one P docs = Some d \<Longrightarrow> P (f d) \<Longrightarrow> find_one P (update_one P f docs) = Some (f d)"
  by (induction docs) (auto simp: find_one_def split: if_splits)

lemma find_one_holds: "find_one P docs = Some d \<Longrightarrow> P d"
  by (induction docs) (auto simp: find_one_def split: if_splits)










text \<open>
  Claim C10. \<^verbatim>\<open>process_refund\<close> returns a failure and leaves the whole store as it was
  when the payment does not exist, when its status is not \<open>completed\<close>, and when the
  refund amount exceeds the payment's amount; every failure result leaves the store
  unchanged. The refund amount is the payment's amount when none is requested (a
  requested zero counts as none, by \<^verbatim>\<open>amount or payment["amount"]\<close>). On success the
  payment found is marked \<open>refunded\<close>, the wallet of the payment's user is credited by
  exactly the refund amount, no other wallet changes, and one \<open>credit\<close> transaction of
  that amount is appended.
\<close>

theorem process_refund_atomic:
  "let R = process_refund ops ObjectId now u db pid amount reason;
       found = find_one (\<lambda>p. payment_id p = pid) (payments db)
   in (found = None \<longrightarrow> R = (Inr (failure ''Payment not found''), db)) \<and>
      (\<forall>p. found = Some p \<and> p_status p \<noteq> ''completed'' \<longrightarrow>
         R = (Inr (failure ''Only completed payments can be refunded''), db)) \<and>
      (\<forall>p. found = Some p \<and> p_status p = ''completed'' \<and>
           flt ops (p_amount p) (refund_amount_of ops amount p) \<longrightarrow>
         R = (Inr (failure ''Refund amount cannot exceed payment amount''), db)) \<and>
      (\<forall>r. fst R = Inr r \<and> \<not> o_success r \<longrightarrow> snd R = db) \<and>
      (\<forall>p. refund_amount_of ops None p = p_amount p) \<and>
      (\<forall>p a. \<not> fis_zero ops a \<longrightarrow> refund_amount_of ops (Some a) p = a) \<and>
      (\<forall>p i. found = Some p \<and> p_status p = ''completed'' \<and>
           \<not> flt ops (p_amount p) (refund_amount_of ops amount p) \<and>
           ObjectId (p_user_id p) = Some i \<longrightarrow>
         (\<exists>r. fst R = Inr r \<and> o_success r \<and>
              o_amount r = Some (refund_amount_of ops amount p)) \<and>
         find_one (\<lambda>p. payment_id p = pid) (payments (snd R)) =
           Some (p \<lparr> p_status := ''refunded'',
                     p_refund_id := Some (''rfnd_'' @ take 16 u),
                     p_refund_amount := Some (refund_amount_of ops amount p),
                     p_refund_reason := Some reason,
                     p_refunded_at := Some now \<rparr>) \<and>
         users (snd R) = inc_wallet ops i (refund_amount_of ops amount p) (users db) \<and>
         (\<forall>usr. users db i = Some usr \<longrightarrow>
            users (snd R) i =
              Some (usr \<lparr> wallet_balance :=
                            fadd ops (wallet_balance usr) (refund_amount_of ops amount p) \<rparr>)) \<and>
         (\<forall>j. j \<noteq> i \<longrightarrow> users (snd R) j = users db j) \<and>
         (\<exists>t. transactions (snd R) = transactions db @ [t] \<and>
              t_type t = ''credit'' \<and> t_purpose t = ''refund'' \<and>
              t_user_id t = p_user_id p \<and>
              t_amount t = refund_amount_of ops amount p))"
proof -
  let ?R = "process_refund ops ObjectId now u db pid amount reason"
  let ?found = "find_one (\<lambda>p. payment_id p = pid) (payments db)"
  have none: "?R = (Inr (failure ''Payment not found''), db)" if "?found = None"
    using that by (simp add: process_refund_def)
  have st: "?R = (Inr (failure ''Only completed payments can be refunded''), db)"
    if "?found = Some p \<and> p_status p \<noteq> ''completed''" for p
    using that by (simp add: process_refund_def)
  have ex: "?R = (Inr (failure ''Refund amount cannot exceed payment amount''), db)"
    if "?found = Some p \<and> p_status p = ''completed'' \<and>
        flt ops (p_amount p) (refund_amount_of ops amount p)" for p
    using that by (simp add: process_refund_def Let_def)
  have inv: "?R = (Inl InvalidId, db \<lparr> payments :=
        update_one (\<lambda>q. payment_id q = pid)
          (\<lambda>q. q \<lparr> p_status := ''refunded'',
                   p_refund_id := Some (''rfnd_'' @ take 16 u),
                   p_refund_amount := Some (refund_amount_of ops amount p),
                   p_refund_reason := Some reason,
                   p_refunded_at := Some now \<rparr>) (payments db) \<rparr>)"
    if "?found = Some p" "p_status p = ''completed''"
       "\<not> flt ops (p_amount p) (refund_amount_of ops amount p)"
       "ObjectId (p_user_id p) = None" for p
    using that by (simp add: process_refund_def Let_def)
  have ok: "?R =
      (Inr \<lparr> o_success = True, o_message = ''Refund processed successfully'',
             o_payment_id = None, o_status = None,
             o_amount = Some (refund_amount_of ops amount p), o_fee_amount = None,
             o_refund_id = Some (''rfnd_'' @ take 16 u),
             o_gateway = Some (p_gateway p) \<rparr>,
       db \<lparr> payments :=
              update_one (\<lambda>q. payment_id q = pid)
                (\<lambda>q. q \<lparr> p_status := ''refunded'',
                         p_refund_id := Some (''rfnd_'' @ take 16 u),
                         p_refund_amount := Some (refund_amount_of ops amount p),
                         p_refund_reason := Some reason,
                         p_refunded_at := Some now \<rparr>) (payments db),
            users := inc_wallet ops i (refund_amount_of ops amount p) (users db),
            transactions := transactions db @
              [\<lparr> t_user_id = p_user_id p, t_amount = refund_amount_of ops amount p,
                 t_fee_amount = None, t_type = ''credit'',
                 t_purpose = ''refund'', t_reference_id = ''rfnd_'' @ take 16 u,
                 t_gateway = Some (p_gateway p),
                 t_payment_method = None, t_timestamp = now,
                 t_original_payment_id = Some pid,
                 t_reason = Some reason \<rparr>] \<rparr>)"
    if "?found = Some p" "p_status p = ''completed''"
       "\<not> flt ops (p_amount p) (refund_amount_of ops amount p)"
       "ObjectId (p_user_id p) = Some i" for p i
    using that by (simp add: process_refund_def Let_def)
  have unchanged: "snd ?R = db" if "fst ?R = Inr r \<and> \<not> o_success r" for r
  proof (cases ?found)
    case None
    with none show ?thesis by simp
  next
    case (Some p)
    show ?thesis
    proof (cases "p_status p = ''completed''")
      case False
      with st [of p] Some show ?thesis by simp
    next
      case True
      show ?thesis
      proof (cases "flt ops (p_amount p) (refund_amount_of ops amount p)")
        case True
        with ex [of p] Some \<open>p_status p = ''completed''\<close> show ?thesis by simp
      next
        case False
        show ?thesis
        proof (cases "ObjectId (p_user_id p)")
          case None
          from inv [OF Some True False None] that show ?thesis by simp
        next
          case (Some i)
          from ok [OF \<open>?found = Some p\<close> True False Some] that show ?thesis by auto
        qed
      qed
    qed
  qed
  have dflt: "refund_amount_of ops None p = p_amount p" for p :: "'a payment"
    by (simp add: refund_amount_of_def)
  have given: "refund_amount_of ops (Some a) p = a" if "\<not> fis_zero ops a" for a and p :: "'a payment"
    using that by (simp add: refund_amount_of_def)
  have good: "(\<exists>r. fst ?R = Inr r \<and> o_success r \<and>
              o_amount r = Some (refund_amount_of ops amount p)) \<and>
         find_one (\<lambda>p. payment_id p = pid) (payments (snd ?R)) =
           Some (p \<lparr> p_status := ''refunded'',
                     p_refund_id := Some (''rfnd_'' @ take 16 u),
                     p_refund_amount := Some (refund_amount_of ops amount p),
                     p_refund_reason := Some reason,
                     p_refunded_at := Some now \<rparr>) \<and>
         users (snd ?R) = inc_wallet ops i (refund_amount_of ops amount p) (users db) \<and>
         (\<forall>usr. users db i = Some usr \<longrightarrow>
            users (snd ?R) i =
              Some (usr \<lparr> wallet_balance :=
                            fadd ops (wallet_balance usr) (refund_amount_of ops amount p) \<rparr>)) \<and>
         (\<forall>j. j \<noteq> i \<longrightarrow> users (snd ?R) j = users db j) \<and>
         (\<exists>t. transactions (snd ?R) = transactions db @ [t] \<and>
              t_type t = ''credit'' \<and> t_purpose t = ''refund'' \<and>
              t_user_id t = p_user_id p \<and>
              t_amount t = refund_amount_of ops amount p)"
    if h: "?found = Some p \<and> p_status p = ''completed'' \<and>
           \<not> flt ops (p_amount p) (refund_amount_of ops amount p) \<and>
           ObjectId (p_user_id p) = Some i" for p i
  proof -
    from h have f: "?found = Some p" and c: "p_status p = ''completed''"
      and a: "\<not> flt ops (p_amount p) (refund_amount_of ops amount p)"
      and o: "ObjectId (p_user_id p) = Some i" by simp_all
    have pid: "payment_id p = pid" using find_one_holds [OF f] .
    have fo: "find_one (\<lambda>q. payment_id q = pid)
        (update_one (\<lambda>q. payment_id q = pid)
          (\<lambda>q. q \<lparr> p_status := ''refunded'',
                   p_refund_id := Some (''rfnd_'' @ take 16 u),
                   p_refund_amount := Some (refund_amount_of ops amount p),
                   p_refund_reason := Some reason,
                   p_refunded_at := Some now \<rparr>) (payments db)) =
        Some (p \<lparr> p_status := ''refunded'',
                     p_refund_id := Some (''rfnd_'' @ take 16 u),
                     p_refund_amount := Some (refund_amount_of ops amount p),
                     p_refund_reason := Some reason,
                     p_refunded_at := Some now \<rparr>)"
      by (rule find_one_update_one [OF f]) (simp add: pid)
    show ?thesis
      unfolding ok [OF f c a o] using fo
      by (auto simp: inc_wallet_def split: option.splits)
  qed
  show ?thesis
    unfolding Let_def
    using none st ex unchanged dflt given good by blast
qed

theorem process_refund_atomic_witness:
  "find_one (\<lambda>p. payment_id p = ''pay_0123456789abcdef'') (payments (sample_db ''completed'' 50))
     = Some (sample_payment ''completed'') \<and>
   \<not> flt exact_ops (p_amount (sample_payment ''completed''))
         (refund_amount_of exact_ops None (sample_payment ''completed'')) \<and>
   sample_ObjectId (p_user_id (sample_payment ''completed'')) = Some 1 \<and>
   users (snd (process_refund exact_ops sample_ObjectId 5 ''00112233445566778899''
                 (sample_db ''completed'' 50) ''pay_0123456789abcdef'' None ''customer_request'')) 1
     = Some (sample_user 150) \<and>
   find_one (\<lambda>p. payment_id p = ''pay_0123456789abcdef'') (payments (sample_db ''created'' 50))
     = Some (sample_payment ''created'') \<and>
   process_refund exact_ops sample_ObjectId 5 ''00112233445566778899''
     (sample_db ''created'' 50) ''pay_0123456789abcdef'' None ''customer_request''
     = (Inr (failure ''Only completed payments can be refunded''), sample_db ''created'' 50)"
proof -
  let ?pid = "''pay_0123456789abcdef''"
  have f: "find_one (\<lambda>p. payment_id p = ?pid) (payments (sample_db st 50)) = Some (sample_payment st)"
    for st
    by (simp add: find_one_def sample_db_def sample_payment_def)
  have a: "\<not> flt exact_ops (p_amount (sample_payment ''completed''))
         (refund_amount_of exact_ops None (sample_payment ''completed''))"
    by (simp add: refund_amount_of_def exact_ops_def)
  have o: "sample_ObjectId (p_user_id (sample_payment ''completed'')) = Some 1"
    by (simp add: sample_ObjectId_def sample_payment_def)
  have c: "p_status (sample_payment ''completed'') = ''completed''"
    by (simp add: sample_payment_def)
  have n: "p_status (sample_payment ''created'') \<noteq> ''completed''"
    by (simp add: sample_payment_def)
  have u: "users (sample_db ''completed'' 50) 1 = Some (sample_user 50)"
    by (simp add: sample_db_def)
  note good = process_refund_atomic
    [of exact_ops sample_ObjectId 5 "''00112233445566778899''" "sample_db ''completed'' 50"
        ?pid None "''customer_request''", unfolded Let_def]
  note bad = process_refund_atomic
    [of exact_ops sample_ObjectId 5 "''00112233445566778899''" "sample_db ''created'' 50"
        ?pid None "''customer_request''", unfolded Let_def]
  from good f [of "''completed''"] a o c u
  have "users (snd (process_refund exact_ops sample_ObjectId 5 ''00112233445566778899''
                 (sample_db ''completed'' 50) ?pid None ''customer_request'')) 1
     = Some (sample_user 50 \<lparr> wallet_balance :=
               fadd exact_ops (wallet_balance (sample_user 50))
                 (refund_amount_of exact_ops None (sample_payment ''completed'')) \<rparr>)"
    by blast
  then have w: "users (snd (process_refund exact_ops sample_ObjectId 5 ''00112233445566778899''
                 (sample_db ''completed'' 50) ?pid None ''customer_request'')) 1
     = Some (sample_user 150)"
    by (simp add: refund_amount_of_def exact_ops_def sample_user_def sample_payment_def)
  from bad f [of "''created''"] n
  have b: "process_refund exact_ops sample_ObjectId 5 ''00112233445566778899''
     (sample_db ''created'' 50) ?pid None ''customer_request''
     = (Inr (failure ''Only completed payments can be refunded''), sample_db ''created'' 50)"
    by blast
  from f [of "''completed''"] f [of "''created''"] a o w b show ?thesis by blast
qed

section \<open>Properties of session booking and update\<close>

text \<open>
  Claim C5. Once the faculty of the request is found (stored, with role \<open>faculty\<close>, and
  verified) and the student is stored, \<^verbatim>\<open>book_session\<close> raises HTTP 400 with the detail
  \<open>Insufficient wallet balance\<close> exactly when the student's wallet balance is less than
  the session amount, and then writes nothing. Otherwise it appends the session, in
  status \<open>pending\<close>, replaces the student's balance by \<open>balance + (- amount)\<close> and
  appends a \<open>debit\<close> transaction of the same amount that refers to the session.
\<close>

theorem book_session_wallet:
  assumes fac: "ObjectId (sc_faculty_id session) = Some fi" "users db fi = Some f"
      "user_role f = ''faculty''" "user_verified f"
    and stu: "ObjectId user_id = Some si" "users db si = Some student"
  shows "(fst (book_session ops ObjectId now uuid1 ins db session user_id) =
            Inl (HTTPException 400 ''Insufficient wallet balance'')) =
           flt ops (wallet_balance student) (sc_amount session) \<and>
         (flt ops (wallet_balance student) (sc_amount session) \<longrightarrow>
            snd (book_session ops ObjectId now uuid1 ins db session user_id) = db) \<and>
         (\<not> flt ops (wallet_balance student) (sc_amount session) \<longrightarrow>
            (\<exists>resp. fst (book_session ops ObjectId now uuid1 ins db session user_id) = Inr resp) \<and>
            sessions (snd (book_session ops ObjectId now uuid1 ins db session user_id)) =
              sessions db @
                [\<lparr> session_id = ''sess_'' @ take 12 uuid1, s_student_id = user_id,
                   s_faculty_id = sc_faculty_id session, s_course_id = sc_course_id session,
                   s_scheduled_time = sc_scheduled_time session,
                   s_duration_minutes = sc_duration_minutes session,
                   s_topic = sc_topic session, s_amount = sc_amount session,
                   s_status = ''pending'', s_payment_status = ''pending'',
                   s_created_at = now, s_updated_at = now,
                   s_meeting_link = None, s_notes = None \<rparr>] \<and>
            users (snd (book_session ops ObjectId now uuid1 ins db session user_id)) =
              (users db) (si \<mapsto> student \<lparr> wallet_balance :=
                 fadd ops (wallet_balance student) (fneg ops (sc_amount session)) \<rparr>) \<and>
            transactions (snd (book_session ops ObjectId now uuid1 ins db session user_id)) =
              transactions db @
                [\<lparr> t_user_id = user_id, t_amount = sc_amount session,
                   t_fee_amount = None, t_type = ''debit'',
                   t_purpose = ''Session booking: '' @ ''sess_'' @ take 12 uuid1,
                   t_reference_id = ''sess_'' @ take 12 uuid1, t_gateway = None,
                   t_payment_method = None, t_timestamp = now,
                   t_original_payment_id = None, t_reason = None \<rparr>])"
  using fac stu
  by (simp add: book_session_def Let_def inc_wallet_def)

theorem book_session_wallet_witness:
  "sample_ObjectId (sc_faculty_id sample_booking) = Some 2 \<and>
   users (campus_db [] 50) 2 = Some sample_faculty \<and>
   user_role sample_faculty = ''faculty'' \<and> user_verified sample_faculty \<and>
   sample_ObjectId sample_user_id = Some 1 \<and>
   users (campus_db [] 50) 1 = Some (sample_user 50) \<and>
   \<not> flt exact_ops (wallet_balance (sample_user 50)) (sc_amount sample_booking) \<and>
   users (snd (book_session exact_ops sample_ObjectId 7 ''0123456789abcdef'' ''65aa''
                 (campus_db [] 50) sample_booking sample_user_id)) 1 = Some (sample_user 20) \<and>
   users (campus_db [] 10) 1 = Some (sample_user 10) \<and>
   flt exact_ops (wallet_balance (sample_user 10)) (sc_amount sample_booking) \<and>
   fst (book_session exact_ops sample_ObjectId 7 ''0123456789abcdef'' ''65aa''
          (campus_db [] 10) sample_booking sample_user_id) =
     Inl (HTTPException 400 ''Insufficient wallet balance'')"
proof -
  have fi: "sample_ObjectId (sc_faculty_id sample_booking) = Some 2"
    by (simp add: sample_ObjectId_def sample_booking_def sample_faculty_id_def sample_user_id_def)
  have fu: "users (campus_db [] b) 2 = Some sample_faculty" for b
    by (simp add: campus_db_def)
  have fr: "user_role sample_faculty = ''faculty''" "user_verified sample_faculty"
    by (simp_all add: sample_faculty_def)
  have si: "sample_ObjectId sample_user_id = Some 1"
    by (simp add: sample_ObjectId_def)
  have su: "users (campus_db [] b) 1 = Some (sample_user b)" for b
    by (simp add: campus_db_def)
  have enough: "\<not> flt exact_ops (wallet_balance (sample_user 50)) (sc_amount sample_booking)"
    by (simp add: exact_ops_def sample_user_def sample_booking_def)
  have short: "flt exact_ops (wallet_balance (sample_user 10)) (sc_amount sample_booking)"
    by (simp add: exact_ops_def sample_user_def sample_booking_def)
  note rich = book_session_wallet [OF fi fu [of 50] fr si su [of 50],
      of exact_ops 7 "''0123456789abcdef''" "''65aa''"]
  note poor = book_session_wallet [OF fi fu [of 10] fr si su [of 10],
      of exact_ops 7 "''0123456789abcdef''" "''65aa''"]
  from rich enough
  have "users (snd (book_session exact_ops sample_ObjectId 7 ''0123456789abcdef'' ''65aa''
                 (campus_db [] 50) sample_booking sample_user_id)) =
        (users (campus_db [] 50)) (1 \<mapsto> sample_user 50 \<lparr> wallet_balance :=
           fadd exact_ops (wallet_balance (sample_user 50)) (fneg exact_ops (sc_amount sample_booking)) \<rparr>)"
    by blast
  then have a: "users (snd (book_session exact_ops sample_ObjectId 7 ''0123456789abcdef'' ''65aa''
                 (campus_db [] 50) sample_booking sample_user_id)) 1 = Some (sample_user 20)"
    by (simp add: exact_ops_def sample_user_def sample_booking_def)
  from poor short
  have b: "fst (book_session exact_ops sample_ObjectId 7 ''0123456789abcdef'' ''65aa''
          (campus_db [] 10) sample_booking sample_user_id) =
     Inl (HTTPException 400 ''Insufficient wallet balance'')"
    by blast
  from fi fu [of 50] fr si su [of 50] su [of 10] enough short a b show ?thesis by blast
qed

lemma inc_wallet_dom: "(inc_wallet ops i x us j = None) = (us j = None)"
  by (auto simp: inc_wallet_def split: option.splits)

lemma update_data_id [simp]: "session_id (update_data now update session s) = session_id s"
  by (simp add: update_data_def Let_def)

lemma update_data_status:
  "su_status update = Some st \<Longrightarrow> st \<noteq> [] \<Longrightarrow>
   s_status (update_data now update session s) = st \<and>
   s_payment_status (update_data now update session s) =
     (if refund_due update session then ''refunded''
      else if st = ''accepted'' then ''completed'' else s_payment_status s)"
  by (auto simp: update_data_def Let_def truthy_def refund_due_def)

text \<open>
  Claim C4 as stated has the update endpoint refuse to move a session that is already
  rejected, cancelled or completed. The handler never reads the current status: a
  rejected and refunded session is moved to \<open>accepted\<close> by the faculty that owns it.
\<close>

theorem update_session_leaves_rejected_counterexample:
  "map s_status (sessions (campus_db [sample_session ''rejected'' ''refunded''] 50)) = [''rejected''] \<and>
   map s_status
     (sessions (snd (update_session exact_ops sample_ObjectId 9
        (campus_db [sample_session ''rejected'' ''refunded''] 50) ''sess_0123456789ab''
        \<lparr> su_status = Some ''accepted'', su_meeting_link = None, su_notes = None \<rparr>
        sample_faculty_id))) = [''accepted'']"
  by (simp add: update_session_def campus_db_def sample_session_def find_one_def
      refund_due_def truthy_def update_data_def sample_ObjectId_def sample_faculty_id_def
      sample_user_id_def Let_def)

text \<open>
  Claim C4, as the code has it. A session is created in status \<open>pending\<close> with payment
  status \<open>pending\<close>. For a stored session, its owning faculty and a requested status,
  \<^verbatim>\<open>update_session\<close> sets the status to the requested one whatever the current status
  is. When the requested status is \<open>rejected\<close> or \<open>cancelled\<close> and the payment status
  is not already \<open>refunded\<close>, that call credits the student's wallet with the session
  amount once, appends one \<open>credit\<close> transaction and sets the payment status to
  \<open>refunded\<close>; in every other case no wallet and no transaction changes, in particular
  never when the payment status is already \<open>refunded\<close>. When the requested status is
  \<open>accepted\<close> the payment status becomes \<open>completed\<close>.
\<close>

theorem update_session_transitions:
  assumes found: "find_one (\<lambda>s. session_id s = sid) (sessions db) = Some session"
    and owner: "s_faculty_id session = user_id"
    and st: "su_status update = Some st" "st \<noteq> []"
    and ids: "ObjectId (s_student_id session) = Some si" "ObjectId user_id = Some fi"
      "users db fi = Some faculty"
  shows "(\<forall>resp. fst (book_session ops ObjectId now uuid ins db booking student_id) = Inr resp \<longrightarrow>
           (\<exists>s. sessions (snd (book_session ops ObjectId now uuid ins db booking student_id)) =
                  sessions db @ [s] \<and>
                s_status s = ''pending'' \<and> s_payment_status s = ''pending'')) \<and>
         (\<exists>resp. fst (update_session ops ObjectId now db sid update user_id) = Inr resp) \<and>
         (\<exists>s'. find_one (\<lambda>s. session_id s = sid)
                 (sessions (snd (update_session ops ObjectId now db sid update user_id))) = Some s' \<and>
               s_status s' = st \<and>
               s_payment_status s' =
                 (if (st = ''rejected'' \<or> st = ''cancelled'') \<and> s_payment_status session \<noteq> ''refunded''
                  then ''refunded''
                  else if st = ''accepted'' then ''completed'' else s_payment_status session)) \<and>
         ((st = ''rejected'' \<or> st = ''cancelled'') \<and> s_payment_status session \<noteq> ''refunded'' \<longrightarrow>
            users (snd (update_session ops ObjectId now db sid update user_id)) =
              inc_wallet ops si (s_amount session) (users db) \<and>
            transactions (snd (update_session ops ObjectId now db sid update user_id)) =
              transactions db @
                [\<lparr> t_user_id = s_student_id session, t_amount = s_amount session,
                   t_fee_amount = None, t_type = ''credit'',
                   t_purpose = ''Session refund: '' @ sid, t_reference_id = sid,
                   t_gateway = None, t_payment_method = None, t_timestamp = now,
                   t_original_payment_id = None, t_reason = None \<rparr>]) \<and>
         (\<not> ((st = ''rejected'' \<or> st = ''cancelled'') \<and> s_payment_status session \<noteq> ''refunded'') \<longrightarrow>
            users (snd (update_session ops ObjectId now db sid update user_id)) = users db \<and>
            transactions (snd (update_session ops ObjectId now db sid update user_id)) =
              transactions db)"
proof -
  let ?U = "update_session ops ObjectId now db sid update user_id"
  let ?B = "book_session ops ObjectId now uuid ins db booking student_id"
  have rd: "refund_due update session =
      ((st = ''rejected'' \<or> st = ''cancelled'') \<and> s_payment_status session \<noteq> ''refunded'')"
    using st by (simp add: refund_due_def truthy_def)
  have fo: "find_one (\<lambda>s. session_id s = sid)
      (update_one (\<lambda>s. session_id s = sid) (update_data now update session) (sessions db)) =
      Some (update_data now update session session)"
    by (rule find_one_update_one [OF found]) (simp add: find_one_holds [OF found])
  have fac: "inc_wallet ops si (s_amount session) (users db) fi \<noteq> None"
    using ids(3) by (simp add: inc_wallet_dom)
  have book: "\<exists>s. sessions (snd ?B) = sessions db @ [s] \<and>
                s_status s = ''pending'' \<and> s_payment_status s = ''pending''"
    if "fst ?B = Inr resp" for resp
    using that
    by (auto simp: book_session_def Let_def split: option.splits if_splits)
  show ?thesis
  proof (cases "refund_due update session")
    case True
    with found owner ids fac fo have
      "(\<exists>resp. fst ?U = Inr resp) \<and>
       find_one (\<lambda>s. session_id s = sid) (sessions (snd ?U)) =
         Some (update_data now update session session) \<and>
       users (snd ?U) = inc_wallet ops si (s_amount session) (users db) \<and>
       transactions (snd ?U) = transactions db @
                [\<lparr> t_user_id = s_student_id session, t_amount = s_amount session,
                   t_fee_amount = None, t_type = ''credit'',
                   t_purpose = ''Session refund: '' @ sid, t_reference_id = sid,
                   t_gateway = None, t_payment_method = None, t_timestamp = now,
                   t_original_payment_id = None, t_reason = None \<rparr>]"
      by (auto simp: update_session_def Let_def split: option.splits)
    with True rd update_data_status [OF st, of now session session] book
    show ?thesis by auto
  next
    case False
    with found owner ids fo have
      "(\<exists>resp. fst ?U = Inr resp) \<and>
       find_one (\<lambda>s. session_id s = sid) (sessions (snd ?U)) =
         Some (update_data now update session session) \<and>
       users (snd ?U) = users db \<and> transactions (snd ?U) = transactions db"
      by (auto simp: update_session_def Let_def split: option.splits)
    with False rd update_data_status [OF st, of now session session] book
    show ?thesis by auto
  qed
qed

theorem update_session_transitions_witness:
  "find_one (\<lambda>s. session_id s = ''sess_0123456789ab'')
     (sessions (campus_db [sample_session ''pending'' ''pending''] 20)) =
     Some (sample_session ''pending'' ''pending'') \<and>
   s_faculty_id (sample_session ''pending'' ''pending'') = sample_faculty_id \<and>
   sample_ObjectId (s_student_id (sample_session ''pending'' ''pending'')) = Some 1 \<and>
   sample_ObjectId sample_faculty_id = Some 2 \<and>
   users (campus_db [sample_session ''pending'' ''pending''] 20) 2 = Some sample_faculty \<and>
   users (snd (update_session exact_ops sample_ObjectId 9
        (campus_db [sample_session ''pending'' ''pending''] 20) ''sess_0123456789ab''
        \<lparr> su_status = Some ''rejected'', su_meeting_link = None, su_notes = None \<rparr>
        sample_faculty_id)) 1 = Some (sample_user 50) \<and>
   (\<exists>s'. find_one (\<lambda>s. session_id s = ''sess_0123456789ab'')
           (sessions (snd (update_session exact_ops sample_ObjectId 9
              (campus_db [sample_session ''pending'' ''pending''] 20) ''sess_0123456789ab''
              \<lparr> su_status = Some ''rejected'', su_meeting_link = None, su_notes = None \<rparr>
              sample_faculty_id))) = Some s' \<and>
         s_status s' = ''rejected'' \<and> s_payment_status s' = ''refunded'')"
proof -
  let ?db = "campus_db [sample_session ''pending'' ''pending''] 20"
  let ?s = "sample_session ''pending'' ''pending''"
  let ?u = "\<lparr> su_status = Some ''rejected'', su_meeting_link = None, su_notes = None \<rparr>"
  have f: "find_one (\<lambda>s. session_id s = ''sess_0123456789ab'') (sessions ?db) = Some ?s"
    by (simp add: find_one_def campus_db_def sample_session_def)
  have o: "s_faculty_id ?s = sample_faculty_id"
    by (simp add: sample_session_def)
  have st: "su_status ?u = Some ''rejected''" "''rejected'' \<noteq> []"
    by simp_all
  have i1: "sample_ObjectId (s_student_id ?s) = Some 1"
    by (simp add: sample_ObjectId_def sample_session_def)
  have i2: "sample_ObjectId sample_faculty_id = Some 2"
    by (simp add: sample_ObjectId_def sample_faculty_id_def sample_user_id_def)
  have fu: "users ?db 2 = Some sample_faculty"
    by (simp add: campus_db_def)
  have ps: "s_payment_status ?s \<noteq> ''refunded''"
    by (simp add: sample_session_def)
  note t = update_session_transitions
    [where ops = exact_ops and now = 9 and uuid = "''0''" and ins = "''0''"
       and booking = sample_booking and student_id = sample_user_id,
     OF f o st i1 i2 fu]
  from t ps
  have "users (snd (update_session exact_ops sample_ObjectId 9 ?db ''sess_0123456789ab'' ?u
          sample_faculty_id)) = inc_wallet exact_ops 1 (s_amount ?s) (users ?db)"
    by blast
  then have w: "users (snd (update_session exact_ops sample_ObjectId 9 ?db ''sess_0123456789ab'' ?u
          sample_faculty_id)) 1 = Some (sample_user 50)"
    by (simp add: inc_wallet_def campus_db_def sample_user_def sample_session_def exact_ops_def)
  from t ps
  have s: "\<exists>s'. find_one (\<lambda>s. session_id s = ''sess_0123456789ab'')
           (sessions (snd (update_session exact_ops sample_ObjectId 9 ?db ''sess_0123456789ab'' ?u
              sample_faculty_id))) = Some s' \<and>
         s_status s' = ''rejected'' \<and> s_payment_status s' = ''refunded''"
    by auto
  from f o i1 i2 fu w s show ?thesis by blast
qed

section \<open>Properties of the one-time passwords\<close>

lemma update_one_by_key:
  "distinct (map g docs) \<Longrightarrow>
   update_one (\<lambda>x. g x = v) f docs = map (\<lambda>x. if g x = v then f x else x) docs"
proof (induction docs)
  case Nil
  then show ?case by simp
next
  case (Cons d docs)
  show ?case
  proof (cases "g d = v")
    case True
    from Cons.prems have "g d \<notin> g ` set docs" by simp
    with True have "\<forall>x \<in> set docs. g x \<noteq> v" by (metis image_eqI)
    then have "map (\<lambda>x. if g x = v then f x else x) docs = docs"
      by (induction docs) auto
    with True show ?thesis by simp
  next
    case False
    with Cons show ?thesis by simp
  qed
qed

lemma find_one_None: "(find_one P docs = None) = (\<not> (\<exists>d \<in> set docs. P d))"
  by (auto simp: find_one_def find_None_iff)

lemma find_one_mem: "find_one P docs = Some d \<Longrightarrow> d \<in> set docs"
  by (induction docs) (auto simp: find_one_def split: if_splits)

lemma verify_otp_none:
  "find_one (otp_valid now e c p) (otps db) = None \<Longrightarrow> \<not> fst (verify_otp now db e c p)"
  by (simp add: verify_otp_def)

lemma verify_otp_found:
  assumes ids: "distinct (map otp_oid (otps db))"
    and f: "find_one (otp_valid now e c p) (otps db) = Some d"
  shows "verify_otp now db e c p =
     (True, db \<lparr> otps := map (\<lambda>x. if otp_oid x = otp_oid d then x \<lparr> otp_is_used := True \<rparr> else x)
                            (otps db) \<rparr>)"
  using f by (simp add: verify_otp_def update_one_by_key [OF ids])

lemma marked_previous:
  assumes y: "y \<in> set (map (\<lambda>x. if otp_email x = e \<and> otp_purpose x = p
                                 then x \<lparr> otp_is_used := True \<rparr> else x) docs)"
    and k: "otp_email y = e \<and> otp_purpose y = p"
  shows "otp_is_used y"
proof -
  from y obtain x where
    yx: "y = (if otp_email x = e \<and> otp_purpose x = p then x \<lparr> otp_is_used := True \<rparr> else x)"
    unfolding set_map by blast
  show ?thesis
  proof (cases "otp_email x = e \<and> otp_purpose x = p")
    case True
    with yx show ?thesis by simp
  next
    case False
    with yx have "y = x" by simp
    with k False show ?thesis by simp
  qed
qed

text \<open>
  Claim C8 as stated has every later \<^verbatim>\<open>verify_otp\<close> call for the same email, code and
  purpose return False. Nothing keeps two stored OTPs from sharing the three (each login
  issues a new one and the code is a random draw), and then the second call finds the
  second document and returns True again.
\<close>

theorem verify_otp_twice_counterexample:
  "distinct (map otp_oid (otps (otp_db [sample_otp 1, sample_otp 2]))) \<and>
   fst (verify_otp 10 (otp_db [sample_otp 1, sample_otp 2])
          ''asha@example.edu'' ''123456'' ''login'') \<and>
   fst (verify_otp 20
          (snd (verify_otp 10 (otp_db [sample_otp 1, sample_otp 2])
                  ''asha@example.edu'' ''123456'' ''login''))
          ''asha@example.edu'' ''123456'' ''login'')"
  by (simp add: verify_otp_def otp_db_def sample_otp_def find_one_def otp_valid_def)

text \<open>
  Claim C8, as the code has it. \<^verbatim>\<open>verify_otp\<close> returns True exactly when an unused,
  unexpired OTP with the email, code and purpose is stored, and a call that returns
  False changes nothing. A call that returns True marks the document it found as used
  and no other, so each stored OTP makes at most one call succeed; when that document was
  the only valid one, every later call for the same email, code and purpose returns
  False (as long as no new OTP is stored). \<^verbatim>\<open>resend_otp\<close> marks every stored OTP of the
  email and purpose as used, then appends the new, unused one.
\<close>

theorem verify_otp_single_use:
  assumes ids: "distinct (map otp_oid (otps db))"
  shows "fst (verify_otp now db e c p) = (\<exists>d \<in> set (otps db). otp_valid now e c p d) \<and>
     (\<not> fst (verify_otp now db e c p) \<longrightarrow> snd (verify_otp now db e c p) = db) \<and>
     (\<forall>d. find_one (otp_valid now e c p) (otps db) = Some d \<longrightarrow>
        otp_valid now e c p d \<and>
        otps (snd (verify_otp now db e c p)) =
          map (\<lambda>x. if otp_oid x = otp_oid d then x \<lparr> otp_is_used := True \<rparr> else x) (otps db) \<and>
        d \<lparr> otp_is_used := True \<rparr> \<in> set (otps (snd (verify_otp now db e c p))) \<and>
        (\<forall>x \<in> set (otps (snd (verify_otp now db e c p))). otp_oid x = otp_oid d \<longrightarrow> otp_is_used x) \<and>
        (\<forall>later. now \<le> later \<and> (\<forall>x \<in> set (otps db). otp_valid now e c p x \<longrightarrow> x = d) \<longrightarrow>
           \<not> fst (verify_otp later (snd (verify_otp now db e c p)) e c p))) \<and>
     snd (resend_otp now code new_oid db e p) =
       db \<lparr> otps :=
              map (\<lambda>x. if otp_email x = e \<and> otp_purpose x = p then x \<lparr> otp_is_used := True \<rparr> else x)
                (otps db) @
              [\<lparr> otp_oid = new_oid, otp_email = e, otp_code = code, otp_purpose = p,
                 otp_expires_at = now + 600000000, otp_is_used = False,
                 otp_created_at = now \<rparr>] \<rparr> \<and>
     (\<forall>x \<in> set (butlast (otps (snd (resend_otp now code new_oid db e p)))).
        otp_email x = e \<and> otp_purpose x = p \<longrightarrow> otp_is_used x)"
proof -
  let ?V = "verify_otp now db e c p"
  let ?mark = "\<lambda>d. map (\<lambda>x. if otp_oid x = otp_oid d then x \<lparr> otp_is_used := True \<rparr> else x) (otps db)"
  have ret: "fst ?V = (\<exists>d \<in> set (otps db). otp_valid now e c p d)"
  proof (cases "find_one (otp_valid now e c p) (otps db)")
    case None
    then show ?thesis using find_one_None [of "otp_valid now e c p" "otps db"]
      by (simp add: verify_otp_def)
  next
    case (Some d)
    then show ?thesis using find_one_None [of "otp_valid now e c p" "otps db"]
      by (simp add: verify_otp_def)
  qed
  have same: "\<not> fst ?V \<longrightarrow> snd ?V = db"
    by (simp add: verify_otp_def split: option.splits)
  have used: "\<forall>d. find_one (otp_valid now e c p) (otps db) = Some d \<longrightarrow>
        otp_valid now e c p d \<and>
        otps (snd ?V) = ?mark d \<and>
        d \<lparr> otp_is_used := True \<rparr> \<in> set (otps (snd ?V)) \<and>
        (\<forall>x \<in> set (otps (snd ?V)). otp_oid x = otp_oid d \<longrightarrow> otp_is_used x) \<and>
        (\<forall>later. now \<le> later \<and> (\<forall>x \<in> set (otps db). otp_valid now e c p x \<longrightarrow> x = d) \<longrightarrow>
           \<not> fst (verify_otp later (snd ?V) e c p))"
  proof (intro allI impI)
    fix d
    assume f: "find_one (otp_valid now e c p) (otps db) = Some d"
    have v: "otp_valid now e c p d" using find_one_holds [OF f] .
    have m: "d \<in> set (otps db)" using find_one_mem [OF f] .
    have o: "otps (snd ?V) = ?mark d"
      by (simp add: verify_otp_found [OF ids f])
    have i: "d \<lparr> otp_is_used := True \<rparr> \<in> set (otps (snd ?V))"
      unfolding o using m by (force simp: image_iff)
    have a: "\<forall>x \<in> set (otps (snd ?V)). otp_oid x = otp_oid d \<longrightarrow> otp_is_used x"
      unfolding o by auto
    have l: "\<forall>later. now \<le> later \<and> (\<forall>x \<in> set (otps db). otp_valid now e c p x \<longrightarrow> x = d) \<longrightarrow>
           \<not> fst (verify_otp later (snd ?V) e c p)"
    proof (intro allI impI)
      fix later
      assume h: "now \<le> later \<and> (\<forall>x \<in> set (otps db). otp_valid now e c p x \<longrightarrow> x = d)"
      have "\<not> otp_valid later e c p y" if y: "y \<in> set (?mark d)" for y
      proof
        assume vy: "otp_valid later e c p y"
        from y obtain x where x: "x \<in> set (otps db)"
          and yx: "y = (if otp_oid x = otp_oid d then x \<lparr> otp_is_used := True \<rparr> else x)"
          by auto
        show False
        proof (cases "otp_oid x = otp_oid d")
          case True
          with yx vy show False by (simp add: otp_valid_def)
        next
          case False
          with yx vy h have "otp_valid now e c p x" by (auto simp: otp_valid_def)
          with h x have "x = d" by blast
          with False show False by simp
        qed
      qed
      then have "find_one (otp_valid later e c p) (?mark d) = None"
        using find_one_None [of "otp_valid later e c p" "?mark d"] by blast
      then have "find_one (otp_valid later e c p) (otps (snd ?V)) = None"
        unfolding o .
      then show "\<not> fst (verify_otp later (snd ?V) e c p)" by (rule verify_otp_none)
    qed
    show "otp_valid now e c p d \<and>
        otps (snd ?V) = ?mark d \<and>
        d \<lparr> otp_is_used := True \<rparr> \<in> set (otps (snd ?V)) \<and>
        (\<forall>x \<in> set (otps (snd ?V)). otp_oid x = otp_oid d \<longrightarrow> otp_is_used x) \<and>
        (\<forall>later. now \<le> later \<and> (\<forall>x \<in> set (otps db). otp_valid now e c p x \<longrightarrow> x = d) \<longrightarrow>
           \<not> fst (verify_otp later (snd ?V) e c p))"
      by (rule conjI [OF v conjI [OF o conjI [OF i conjI [OF a l]]]])
  qed
  have re: "snd (resend_otp now code new_oid db e p) =
       db \<lparr> otps :=
              map (\<lambda>x. if otp_email x = e \<and> otp_purpose x = p then x \<lparr> otp_is_used := True \<rparr> else x)
                (otps db) @
              [\<lparr> otp_oid = new_oid, otp_email = e, otp_code = code, otp_purpose = p,
                 otp_expires_at = now + 600000000, otp_is_used = False,
                 otp_created_at = now \<rparr>] \<rparr>"
  proof -
    have "(\<lambda>x. if otp_email x = e \<and> otp_purpose x = p \<and> \<not> otp_is_used x
               then x \<lparr> otp_is_used := True \<rparr> else x) =
          (\<lambda>x. if otp_email x = e \<and> otp_purpose x = p then x \<lparr> otp_is_used := True \<rparr> else x)"
      by (rule ext) auto
    then show ?thesis
      by (simp add: resend_otp_def create_otp_def update_many_def)
  qed
  have prev: "\<forall>x \<in> set (butlast (otps (snd (resend_otp now code new_oid db e p)))).
        otp_email x = e \<and> otp_purpose x = p \<longrightarrow> otp_is_used x"
  proof -
    have "butlast (otps (snd (resend_otp now code new_oid db e p))) =
          map (\<lambda>x. if otp_email x = e \<and> otp_purpose x = p then x \<lparr> otp_is_used := True \<rparr> else x)
            (otps db)"
      unfolding re by simp
    then have eq: "set (butlast (otps (snd (resend_otp now code new_oid db e p)))) =
          set (map (\<lambda>x. if otp_email x = e \<and> otp_purpose x = p then x \<lparr> otp_is_used := True \<rparr> else x)
            (otps db))"
      by (rule arg_cong)
    show ?thesis
    proof (intro ballI impI)
      fix x
      assume "x \<in> set (butlast (otps (snd (resend_otp now code new_oid db e p))))"
        and k: "otp_email x = e \<and> otp_purpose x = p"
      then have "x \<in> set (map (\<lambda>x. if otp_email x = e \<and> otp_purpose x = p
                                   then x \<lparr> otp_is_used := True \<rparr> else x) (otps db))"
        unfolding eq by simp
      from marked_previous [OF this k] show "otp_is_used x" .
    qed
  qed
  show ?thesis
    by (rule conjI [OF ret conjI [OF same conjI [OF used conjI [OF re prev]]]])
qed

theorem verify_otp_single_use_witness:
  "distinct (map otp_oid (otps (otp_db [sample_otp 1]))) \<and>
   find_one (otp_valid 10 ''asha@example.edu'' ''123456'' ''login'') (otps (otp_db [sample_otp 1]))
     = Some (sample_otp 1) \<and>
   fst (verify_otp 10 (otp_db [sample_otp 1]) ''asha@example.edu'' ''123456'' ''login'') \<and>
   \<not> fst (verify_otp 20
            (snd (verify_otp 10 (otp_db [sample_otp 1]) ''asha@example.edu'' ''123456'' ''login''))
            ''asha@example.edu'' ''123456'' ''login'')"
proof -
  let ?db = "otp_db [sample_otp 1]"
  have ids: "distinct (map otp_oid (otps ?db))"
    by (simp add: otp_db_def)
  have v: "otp_valid 10 ''asha@example.edu'' ''123456'' ''login'' (sample_otp 1)"
    by (simp add: otp_valid_def sample_otp_def)
  have f: "find_one (otp_valid 10 ''asha@example.edu'' ''123456'' ''login'') (otps ?db)
     = Some (sample_otp 1)"
    using v by (simp add: find_one_def otp_db_def)
  have only: "\<forall>x \<in> set (otps ?db).
      otp_valid 10 ''asha@example.edu'' ''123456'' ''login'' x \<longrightarrow> x = sample_otp 1"
    by (simp add: otp_db_def)
  have m: "\<exists>d \<in> set (otps ?db). otp_valid 10 ''asha@example.edu'' ''123456'' ''login'' d"
    using v by (simp add: otp_db_def)
  note t = verify_otp_single_use
    [where now = 10 and e = "''asha@example.edu''" and c = "''123456''" and p = "''login''"
       and code = "''654321''" and new_oid = 2, OF ids]
  from t m have a: "fst (verify_otp 10 ?db ''asha@example.edu'' ''123456'' ''login'')"
    by blast
  note u = t [THEN conjunct2, THEN conjunct2, THEN conjunct1, rule_format, OF f]
  note l = u [THEN conjunct2, THEN conjunct2, THEN conjunct2, THEN conjunct2, rule_format, of 20]
  have "(10 :: int) \<le> 20 \<and> (\<forall>x \<in> set (otps ?db).
      otp_valid 10 ''asha@example.edu'' ''123456'' ''login'' x \<longrightarrow> x = sample_otp 1)"
    using only by simp
  then have b: "\<not> fst (verify_otp 20
            (snd (verify_otp 10 ?db ''asha@example.edu'' ''123456'' ''login''))
            ''asha@example.edu'' ''123456'' ''login'')"
    by (rule l)
  show ?thesis
    by (rule conjI [OF ids conjI [OF f conjI [OF a b]]])
qed

end
